theory Spec2Isabelle
  imports Main "HOL-Library.Sublist"
begin

section \<open>The Playwright node: data model\<close>

text \<open>
  The node's \<^verbatim>\<open>execute\<close> method (the class \<^verbatim>\<open>Playwright\<close>) is an adapter: every step
  is a call into the host platform or into the browser automation library. The model keeps
  the control flow of \<^verbatim>\<open>execute\<close> as it is written and takes each external collaborator as a
  parameter (a field of the record \<open>env\<close>): a function of the state of the outside world
  that returns either a thrown error or a value, together with the new state of the world.
  What \<^verbatim>\<open>execute\<close> does before the loop (loading the automation library, joining the path
  of the browsers directory) is taken as done, and its console output is left out. The
  script runner's result is an array of items, as its use in \<^verbatim>\<open>returnData.push(...result)\<close>
  expects.
\<close>

text \<open>
  The values of the \<^verbatim>\<open>json\<close> field of an item: JSON values, and \<^verbatim>\<open>undefined\<close>, which a
  property of an object literal can hold.
\<close>

datatype jvalue =
    JString string
  | JNumber int
  | JBool bool
  | JNull
  | JUndefined
  | JArray "jvalue list"
  | JObject "(string \<times> jvalue) list"

text \<open>
  A thrown value; JavaScript can throw any value. \<open>Error m\<close> is an object whose
  \<^verbatim>\<open>message\<close> is the string \<open>m\<close>, as \<^verbatim>\<open>new Error(m)\<close> is. \<open>Other v\<close> is any other value but
  \<^verbatim>\<open>null\<close> and \<^verbatim>\<open>undefined\<close> (a string, a number, an object of another shape), where \<open>v\<close> is
  what reading its \<^verbatim>\<open>message\<close> property gives, \<^verbatim>\<open>undefined\<close> when it has none. \<^verbatim>\<open>null\<close> and
  \<^verbatim>\<open>undefined\<close> can be thrown as well (a script's \<^verbatim>\<open>throw null\<close>, a promise rejected without
  a reason).
\<close>

datatype error = Error string | Other jvalue | Thrown_null | Thrown_undefined

text \<open>
  \<^verbatim>\<open>error.message\<close>, as lines 360 and 400 read it: reading a property of \<^verbatim>\<open>null\<close> or
  \<^verbatim>\<open>undefined\<close> throws a TypeError, with the message the host's JavaScript engine gives it.
\<close>

definition type_error :: "string \<Rightarrow> error" where
  "type_error v = Error (''Cannot read properties of '' @ v @ '' (reading 'message')'')"

fun error_message :: "error \<Rightarrow> error + jvalue" where
  "error_message (Error m) = Inr (JString m)"
| "error_message (Other v) = Inr v"
| "error_message Thrown_null = Inl (type_error ''null'')"
| "error_message Thrown_undefined = Inl (type_error ''undefined'')"

record IBinaryData =
  mimeType :: string
  data :: string

text \<open>\<^verbatim>\<open>INodeExecutionData\<close>: the structured fields and the optional binary attachments.\<close>

record INodeExecutionData =
  json :: "(string \<times> jvalue) list"
  binary :: "(string \<times> IBinaryData) list option"

text \<open>Handles of the automation library: opaque, compared by identity.\<close>

datatype browser = Browser nat
datatype browser_context = BrowserContext nat
datatype page = Page nat

text \<open>
  \<^verbatim>\<open>IBrowserOptions\<close>, as \<^verbatim>\<open>execute\<close> reads it: both fields may be absent
  (\<^verbatim>\<open>undefined\<close> is \<open>None\<close>).
\<close>

record IBrowserOptions =
  headless :: "bool option"
  slowMo :: "int option"

text \<open>
  The credential object. The three fields are read with a cast (\<^verbatim>\<open>as string\<close>), which
  checks nothing at run time: an absent field is \<open>None\<close>.
\<close>

record credentials =
  connectionType :: "string option"
  executablePath :: "string option"
  endpointUrl :: "string option"

text \<open>The object literal passed to \<^verbatim>\<open>playwright[browserType].launch\<close>.\<close>

datatype launch_options =
  LaunchOptions (opt_headless: bool) (opt_slowMo: int) (opt_executablePath: string)

text \<open>
  The log of what \<^verbatim>\<open>execute\<close> does, in program order: one event per call of an external
  collaborator, with the arguments of the call and what it returned or threw, and one event
  per \<^verbatim>\<open>returnData.push\<close>. The log is instrumentation: the program never reads it.
\<close>

datatype event =
    GetCredentials "error + credentials"
  | ConnectOverCDP "string option" int "error + browser"
  | GetBrowserExecutablePath string string "error + string"
  | InstallBrowser string "error + unit"
  | Launch string launch_options "error + browser"
  | NewContext browser "error + browser_context"
  | NewPage browser_context "error + page"
  | RunCustomScript nat browser page "error + INodeExecutionData list"
  | Goto page string "error + unit"
  | HandleOperation string page nat "error + INodeExecutionData"
  | Close browser "error + unit"
  | Push "INodeExecutionData list"

text \<open>
  The collaborators of \<^verbatim>\<open>execute\<close>. \<open>'w\<close> is the state of the outside world (the file
  system, the browser processes, the network). The node parameters of item \<open>i\<close> are read
  with \<^verbatim>\<open>this.getNodeParameter(name, i)\<close>, which throws when the parameter cannot be
  resolved. \<open>browsersPath\<close> stands for \<^verbatim>\<open>join(__dirname, '..', 'browsers')\<close> and
  \<open>platform\<close> for \<^verbatim>\<open>os.platform()\<close>.
\<close>

record 'w env =
  getInputData :: "INodeExecutionData list"
  getNodeParameter_operation :: "nat \<Rightarrow> error + string"
  getNodeParameter_browser :: "nat \<Rightarrow> error + string"
  getNodeParameter_browserOptions :: "nat \<Rightarrow> error + IBrowserOptions"
  getNodeParameter_url :: "nat \<Rightarrow> error + string"
  continueOnFail :: bool
  platform :: string
  browsersPath :: string
  getCredentials :: "'w \<Rightarrow> (error + credentials) \<times> 'w"
  connectOverCDP :: "string option \<Rightarrow> int \<Rightarrow> 'w \<Rightarrow> (error + browser) \<times> 'w"
  getBrowserExecutablePath :: "string \<Rightarrow> string \<Rightarrow> 'w \<Rightarrow> (error + string) \<times> 'w"
  installBrowser :: "string \<Rightarrow> 'w \<Rightarrow> (error + unit) \<times> 'w"
  launch :: "string \<Rightarrow> launch_options \<Rightarrow> 'w \<Rightarrow> (error + browser) \<times> 'w"
  newContext :: "browser \<Rightarrow> 'w \<Rightarrow> (error + browser_context) \<times> 'w"
  newPage :: "browser_context \<Rightarrow> 'w \<Rightarrow> (error + page) \<times> 'w"
  runCustomScript :: "nat \<Rightarrow> browser \<Rightarrow> page \<Rightarrow> 'w \<Rightarrow> (error + INodeExecutionData list) \<times> 'w"
  goto :: "page \<Rightarrow> string \<Rightarrow> 'w \<Rightarrow> (error + unit) \<times> 'w"
  handleOperation :: "string \<Rightarrow> page \<Rightarrow> nat \<Rightarrow> 'w \<Rightarrow> (error + INodeExecutionData) \<times> 'w"
  close :: "browser \<Rightarrow> 'w \<Rightarrow> (error + unit) \<times> 'w"

text \<open>
  The state threaded through \<^verbatim>\<open>execute\<close>: the outside world, the log, and the local
  variable \<^verbatim>\<open>returnData\<close>.
\<close>

record 'w state =
  world :: 'w
  trace :: "event list"
  returnData :: "INodeExecutionData list"

type_synonym ('w, 'a) prog = "'w state \<Rightarrow> (error + 'a) \<times> 'w state"

section \<open>Control flow: sequencing, throw, try/catch, external calls\<close>

definition return :: "'a \<Rightarrow> ('w, 'a) prog" where
  "return x s = (Inr x, s)"

definition throw :: "error \<Rightarrow> ('w, 'a) prog" where
  "throw e s = (Inl e, s)"

text \<open>Sequencing: an error of the first statement skips the rest.\<close>

definition bind :: "('w, 'a) prog \<Rightarrow> ('a \<Rightarrow> ('w, 'b) prog) \<Rightarrow> ('w, 'b) prog" where
  "bind m k s = (case m s of (Inl e, s') \<Rightarrow> (Inl e, s') | (Inr x, s') \<Rightarrow> k x s')"

text \<open>\<^verbatim>\<open>try { m } catch (error) { h error }\<close>: the handler runs in the state the error left.\<close>

definition try_catch :: "('w, 'a) prog \<Rightarrow> (error \<Rightarrow> ('w, 'a) prog) \<Rightarrow> ('w, 'a) prog" where
  "try_catch m h s = (case m s of (Inl e, s') \<Rightarrow> h e s' | (Inr x, s') \<Rightarrow> (Inr x, s'))"

text \<open>A call of an external collaborator: the world moves on and the call is logged.\<close>

definition call :: "((error + 'a) \<Rightarrow> event) \<Rightarrow> ('w \<Rightarrow> (error + 'a) \<times> 'w) \<Rightarrow> ('w, 'a) prog" where
  "call ev f s = (case f (world s) of (r, w') \<Rightarrow>
     (r, s\<lparr>world := w', trace := trace s @ [ev r]\<rparr>))"

text \<open>Reading a node parameter: it throws or gives the value, and changes nothing.\<close>

definition getNodeParameter :: "error + 'a \<Rightarrow> ('w, 'a) prog" where
  "getNodeParameter r s = (r, s)"

text \<open>Reading a property: it throws or gives the value, and changes nothing.\<close>

definition property_read :: "error + 'a \<Rightarrow> ('w, 'a) prog" where
  "property_read r s = (r, s)"

text \<open>\<^verbatim>\<open>returnData.push(...xs)\<close>.\<close>

definition push :: "INodeExecutionData list \<Rightarrow> ('w, unit) prog" where
  "push xs s = (Inr (), s\<lparr>trace := trace s @ [Push xs], returnData := returnData s @ xs\<rparr>)"

section \<open>The body of \<^verbatim>\<open>execute\<close>\<close>

text \<open>\<^verbatim>\<open>browserOptions.slowMo || 0\<close>: an absent or zero \<^verbatim>\<open>slowMo\<close> gives 0.\<close>

definition slowMo_or_0 :: "IBrowserOptions \<Rightarrow> int" where
  "slowMo_or_0 browserOptions =
     (case slowMo browserOptions of None \<Rightarrow> 0 | Some n \<Rightarrow> if n = 0 then 0 else n)"

definition cdp_message :: string where
  "cdp_message = ''Connect Over CDP is only supported for Chromium-based browsers. Please select \"Chromium\" as the Browser.''"

text \<open>
  Lines 354 to 364, the executable path of launch mode:
  \<^verbatim>\<open>executablePath = credentials.executablePath; if (!executablePath) { try { locate }
  catch (error) { console.error(... error.message ...); await installBrowser(browserType);
  locate } }\<close>.
  An absent and an empty path are both falsy. The handler reads \<^verbatim>\<open>error.message\<close> for its
  console line before it calls the installer.
\<close>

definition locate :: "'w env \<Rightarrow> string \<Rightarrow> ('w, string) prog" where
  "locate env browserType =
     call (GetBrowserExecutablePath browserType (browsersPath env))
       (getBrowserExecutablePath env browserType (browsersPath env))"

definition resolve_executablePath :: "'w env \<Rightarrow> string \<Rightarrow> credentials \<Rightarrow> ('w, string) prog" where
  "resolve_executablePath env browserType creds =
     (if executablePath creds = None \<or> executablePath creds = Some [] then
        try_catch (locate env browserType)
          (\<lambda>error. bind (property_read (error_message error)) (\<lambda>_.
             bind (call (InstallBrowser browserType) (installBrowser env browserType))
               (\<lambda>_. locate env browserType)))
      else return (case executablePath creds of Some p \<Rightarrow> p | None \<Rightarrow> []))"

text \<open>Lines 341 to 373: the browser handle, by attaching (connect) or by launching.\<close>

definition acquire_browser ::
  "'w env \<Rightarrow> string \<Rightarrow> IBrowserOptions \<Rightarrow> credentials \<Rightarrow> ('w, browser) prog" where
  "acquire_browser env browserType browserOptions creds =
     (if connectionType creds = Some ''connect'' then
        (if browserType \<noteq> ''chromium'' then throw (Error cdp_message)
         else call (ConnectOverCDP (endpointUrl creds) (slowMo_or_0 browserOptions))
                (connectOverCDP env (endpointUrl creds) (slowMo_or_0 browserOptions)))
      else
        bind (resolve_executablePath env browserType creds) (\<lambda>path.
          call (Launch browserType
                  (LaunchOptions (headless browserOptions \<noteq> Some False)
                     (slowMo_or_0 browserOptions) path))
            (launch env browserType
               (LaunchOptions (headless browserOptions \<noteq> Some False)
                  (slowMo_or_0 browserOptions) path))))"

text \<open>Lines 375 to 394: context, page, the operation, close, push.\<close>

definition run_operation :: "'w env \<Rightarrow> nat \<Rightarrow> string \<Rightarrow> browser \<Rightarrow> ('w, unit) prog" where
  "run_operation env i operation b =
     bind (call (NewContext b) (newContext env b)) (\<lambda>ctx.
     bind (call (NewPage ctx) (newPage env ctx)) (\<lambda>pg.
       if operation = ''runCustomScript'' then
         bind (call (RunCustomScript i b pg) (runCustomScript env i b pg)) (\<lambda>result.
         bind (call (Close b) (close env b)) (\<lambda>_.
         push result))
       else
         bind (getNodeParameter (getNodeParameter_url env i)) (\<lambda>url.
         bind (call (Goto pg url) (goto env pg url)) (\<lambda>_.
         bind (call (HandleOperation operation pg i) (handleOperation env operation pg i)) (\<lambda>result.
         bind (call (Close b) (close env b)) (\<lambda>_.
         push [result]))))))"

text \<open>Lines 334 to 394: the \<^verbatim>\<open>try\<close> block of one item.\<close>

definition try_block ::
  "'w env \<Rightarrow> nat \<Rightarrow> string \<Rightarrow> string \<Rightarrow> IBrowserOptions \<Rightarrow> ('w, unit) prog" where
  "try_block env i operation browserType browserOptions =
     bind (call GetCredentials (getCredentials env)) (\<lambda>creds.
     bind (acquire_browser env browserType browserOptions creds) (\<lambda>b.
     run_operation env i operation b))"

text \<open>
  Lines 398 to 404: the item pushed for a caught error, from what \<^verbatim>\<open>error.message\<close> gave.
\<close>

definition error_item :: "jvalue \<Rightarrow> string \<Rightarrow> string \<Rightarrow> INodeExecutionData" where
  "error_item m browserType os =
     \<lparr>json = [(''error'', m),
              (''browserType'', JString browserType),
              (''os'', JString os)],
      binary = None\<rparr>"

text \<open>
  Lines 395 to 408: the \<^verbatim>\<open>catch\<close> block. With continue-on-fail on, the object literal reads
  \<^verbatim>\<open>error.message\<close> first; when that read throws, nothing is pushed and the TypeError leaves
  the handler and the loop.
\<close>

definition catch_block :: "'w env \<Rightarrow> string \<Rightarrow> error \<Rightarrow> ('w, unit) prog" where
  "catch_block env browserType e =
     (if continueOnFail env then
        bind (property_read (error_message e)) (\<lambda>m.
          push [error_item m browserType (platform env)])
      else throw e)"

text \<open>
  Lines 329 to 331: the three parameters read at the top of each turn of the loop, in the
  order \<^verbatim>\<open>operation\<close>, \<^verbatim>\<open>browser\<close>, \<^verbatim>\<open>browserOptions\<close>; the first that throws ends the reading.
\<close>

definition read_parameters :: "'w env \<Rightarrow> nat \<Rightarrow> error + (string \<times> string \<times> IBrowserOptions)" where
  "read_parameters env i =
     (case getNodeParameter_operation env i of
        Inl e \<Rightarrow> Inl e
      | Inr operation \<Rightarrow>
          (case getNodeParameter_browser env i of
             Inl e \<Rightarrow> Inl e
           | Inr browserType \<Rightarrow>
               (case getNodeParameter_browserOptions env i of
                  Inl e \<Rightarrow> Inl e
                | Inr browserOptions \<Rightarrow> Inr (operation, browserType, browserOptions))))"

text \<open>
  Lines 329 to 408: one turn of the loop. The three parameters are read before the
  \<^verbatim>\<open>try\<close>, so an error of theirs is not caught.
\<close>

definition loop_body :: "'w env \<Rightarrow> nat \<Rightarrow> ('w, unit) prog" where
  "loop_body env i =
     bind (getNodeParameter (read_parameters env i)) (\<lambda>(operation, browserType, browserOptions).
       try_catch (try_block env i operation browserType browserOptions)
         (catch_block env browserType))"

text \<open>\<^verbatim>\<open>for (let i = 0; i < items.length; i++)\<close>, from \<open>i\<close> on, with \<open>n = items.length\<close>.\<close>

function execute_loop :: "'w env \<Rightarrow> nat \<Rightarrow> nat \<Rightarrow> ('w, unit) prog" where
  "execute_loop env n i s =
     (if i < n then
        (case loop_body env i s of
           (Inl e, s') \<Rightarrow> (Inl e, s')
         | (Inr _, s') \<Rightarrow> execute_loop env n (Suc i) s')
      else (Inr (), s))"
  by pat_completeness auto
termination
  by (relation "measure (\<lambda>(env, n, i, s). n - i)") auto

text \<open>\<^verbatim>\<open>execute\<close>: \<^verbatim>\<open>returnData\<close> starts empty and is returned as the only output branch.\<close>

definition execute :: "'w env \<Rightarrow> 'w \<Rightarrow> (error + INodeExecutionData list list) \<times> 'w state" where
  "execute env w =
     (case execute_loop env (length (getInputData env)) 0
             \<lparr>world = w, trace = [], returnData = []\<rparr> of
        (Inl e, s) \<Rightarrow> (Inl e, s)
      | (Inr _, s) \<Rightarrow> (Inr [returnData s], s))"

section \<open>Reading the log\<close>

text \<open>The events logged between two states: what one piece of the program did.\<close>

definition new_events :: "'w state \<Rightarrow> 'w state \<Rightarrow> event list" where
  "new_events s s' = drop (length (trace s)) (trace s')"

text \<open>The events of browser acquisition (lines 335 to 373); the others use the browser.\<close>

fun acquisition_event :: "event \<Rightarrow> bool" where
  "acquisition_event (GetCredentials _) = True"
| "acquisition_event (ConnectOverCDP _ _ _) = True"
| "acquisition_event (GetBrowserExecutablePath _ _ _) = True"
| "acquisition_event (InstallBrowser _ _) = True"
| "acquisition_event (Launch _ _ _) = True"
| "acquisition_event _ = False"

text \<open>
  What the log of browser acquisition may hold: acquisition events only, every launch with
  the item's browser kind, \<^verbatim>\<open>headless !== false\<close> and \<^verbatim>\<open>slowMo || 0\<close>, every attachment
  in connect mode with the credential's endpoint and \<^verbatim>\<open>slowMo || 0\<close>.
\<close>

fun acquisition_ok :: "string \<Rightarrow> IBrowserOptions \<Rightarrow> credentials \<Rightarrow> event \<Rightarrow> bool" where
  "acquisition_ok bt bo creds (Launch bt' opts _) =
     (bt' = bt \<and> opt_headless opts = (headless bo \<noteq> Some False) \<and>
      opt_slowMo opts = slowMo_or_0 bo)"
| "acquisition_ok bt bo creds (ConnectOverCDP u m _) =
     (connectionType creds = Some ''connect'' \<and> u = endpointUrl creds \<and> m = slowMo_or_0 bo)"
| "acquisition_ok bt bo creds ev = acquisition_event ev"

definition acquisition_log :: "string \<Rightarrow> IBrowserOptions \<Rightarrow> credentials \<Rightarrow> event list \<Rightarrow> bool" where
  "acquisition_log bt bo creds acq = list_all (acquisition_ok bt bo creds) acq"

section \<open>Concrete environments\<close>

text \<open>
  A world for running the model on concrete inputs: the state of the world is the number of
  browser installations done so far. The locator finds the executable once an installation
  has run; credentials ask for launch mode with no explicit path; every browser call
  succeeds; the node has two input items, both \<^verbatim>\<open>navigate\<close> on Firefox.
\<close>

definition page_item :: INodeExecutionData where
  "page_item = \<lparr>json = [(''url'', JString ''https://example.com/'')], binary = None\<rparr>"

definition launch_credentials :: credentials where
  "launch_credentials =
     \<lparr>connectionType = Some ''launch'', executablePath = Some [], endpointUrl = None\<rparr>"

definition connect_credentials :: credentials where
  "connect_credentials =
     \<lparr>connectionType = Some ''connect'', executablePath = None,
      endpointUrl = Some ''http://localhost:9222''\<rparr>"

definition example_env :: "nat env" where
  "example_env =
     \<lparr>getInputData = [\<lparr>json = [], binary = None\<rparr>, \<lparr>json = [], binary = None\<rparr>],
      getNodeParameter_operation = (\<lambda>i. Inr ''navigate''),
      getNodeParameter_browser = (\<lambda>i. Inr ''firefox''),
      getNodeParameter_browserOptions = (\<lambda>i. Inr \<lparr>headless = None, slowMo = Some 50\<rparr>),
      getNodeParameter_url = (\<lambda>i. Inr ''https://example.com''),
      continueOnFail = False,
      platform = ''linux'',
      browsersPath = ''/opt/node/browsers'',
      getCredentials = (\<lambda>w. (Inr launch_credentials, w)),
      connectOverCDP = (\<lambda>u m w. (Inr (Browser 9), w)),
      getBrowserExecutablePath = (\<lambda>bt root w.
        (if w = 0 then Inl (Error ''Browser executable not found'')
         else Inr (root @ ''/'' @ bt), w)),
      installBrowser = (\<lambda>bt w. (Inr (), Suc w)),
      launch = (\<lambda>bt opts w. (Inr (Browser 1), w)),
      newContext = (\<lambda>b w. (Inr (BrowserContext 2), w)),
      newPage = (\<lambda>ctx w. (Inr (Page 3), w)),
      runCustomScript = (\<lambda>i b pg w. (Inr [], w)),
      goto = (\<lambda>pg url w. (Inr (), w)),
      handleOperation = (\<lambda>operation pg i w. (Inr page_item, w)),
      close = (\<lambda>b w. (Inr (), w))\<rparr>"

text \<open>The same world, attaching over CDP while the node asks for Firefox.\<close>

definition connect_env :: "nat env" where
  "connect_env = example_env\<lparr>getCredentials := (\<lambda>w. (Inr connect_credentials, w))\<rparr>"

text \<open>
  Launch credentials with an explicit executable path; a world where the second item's URL
  cannot be reached; and a world with continue-on-fail on, whose first item is a custom
  script returning no items, whose navigation always fails and whose third item has a
  \<^verbatim>\<open>browser\<close> parameter that cannot be resolved.
\<close>

definition path_credentials :: credentials where
  "path_credentials =
     \<lparr>connectionType = Some ''launch'', executablePath = Some ''/usr/bin/firefox'',
      endpointUrl = None\<rparr>"

definition flaky_env :: "nat env" where
  "flaky_env = example_env
     \<lparr>getInputData := [\<lparr>json = [], binary = None\<rparr>, \<lparr>json = [], binary = None\<rparr>,
                       \<lparr>json = [], binary = None\<rparr>],
      getNodeParameter_url := (\<lambda>i. Inr (if i = 1 then ''https://unreachable.invalid''
                                          else ''https://example.com'')),
      getCredentials := (\<lambda>w. (Inr path_credentials, w)),
      goto := (\<lambda>pg url w. (if url = ''https://unreachable.invalid''
                               then Inl (Error ''net::ERR_NAME_NOT_RESOLVED'') else Inr (), w))\<rparr>"

definition skewed_env :: "nat env" where
  "skewed_env = example_env
     \<lparr>getInputData := [\<lparr>json = [], binary = None\<rparr>, \<lparr>json = [], binary = None\<rparr>,
                       \<lparr>json = [], binary = None\<rparr>],
      getNodeParameter_operation := (\<lambda>i. Inr (if i = 0 then ''runCustomScript'' else ''navigate'')),
      getNodeParameter_browser := (\<lambda>i. if i = 2 then Inl (Error ''Could not get parameter'')
                                         else Inr ''firefox''),
      continueOnFail := True,
      getCredentials := (\<lambda>w. (Inr path_credentials, w)),
      goto := (\<lambda>pg url w. (Inl (Error ''net::ERR_NAME_NOT_RESOLVED''), w))\<rparr>"

text \<open>The first item of \<open>example_env\<close>, run from a world with no browser installed.\<close>

definition example_options :: IBrowserOptions where
  "example_options = \<lparr>headless = None, slowMo = Some 50\<rparr>"

definition fresh :: "nat state" where
  "fresh = \<lparr>world = 0, trace = [], returnData = []\<rparr>"

definition example_log :: "event list" where
  "example_log =
     [GetCredentials (Inr launch_credentials),
      GetBrowserExecutablePath ''firefox'' ''/opt/node/browsers''
        (Inl (Error ''Browser executable not found'')),
      InstallBrowser ''firefox'' (Inr ()),
      GetBrowserExecutablePath ''firefox'' ''/opt/node/browsers''
        (Inr ''/opt/node/browsers/firefox''),
      Launch ''firefox'' (LaunchOptions True 50 ''/opt/node/browsers/firefox'') (Inr (Browser 1)),
      NewContext (Browser 1) (Inr (BrowserContext 2)),
      NewPage (BrowserContext 2) (Inr (Page 3)),
      Goto (Page 3) ''https://example.com'' (Inr ()),
      HandleOperation ''navigate'' (Page 3) 0 (Inr page_item),
      Close (Browser 1) (Inr ()),
      Push [page_item]]"

text \<open>
  The logs of the first two items of \<open>skewed_env\<close>: a custom script that returns no
  items, then a navigation that fails.
\<close>

definition script_log :: "event list" where
  "script_log =
     [GetCredentials (Inr path_credentials),
      Launch ''firefox'' (LaunchOptions True 50 ''/usr/bin/firefox'') (Inr (Browser 1)),
      NewContext (Browser 1) (Inr (BrowserContext 2)),
      NewPage (BrowserContext 2) (Inr (Page 3)),
      RunCustomScript 0 (Browser 1) (Page 3) (Inr []),
      Close (Browser 1) (Inr ()),
      Push []]"

definition failed_log :: "event list" where
  "failed_log =
     [GetCredentials (Inr path_credentials),
      Launch ''firefox'' (LaunchOptions True 50 ''/usr/bin/firefox'') (Inr (Browser 1)),
      NewContext (Browser 1) (Inr (BrowserContext 2)),
      NewPage (BrowserContext 2) (Inr (Page 3)),
      Goto (Page 3) ''https://example.com'' (Inl (Error ''net::ERR_NAME_NOT_RESOLVED''))]"

text \<open>
  The logs of the first two items of \<open>flaky_env\<close>: a navigation that succeeds, then one
  whose URL cannot be reached.
\<close>

definition first_log :: "event list" where
  "first_log =
     [GetCredentials (Inr path_credentials),
      Launch ''firefox'' (LaunchOptions True 50 ''/usr/bin/firefox'') (Inr (Browser 1)),
      NewContext (Browser 1) (Inr (BrowserContext 2)),
      NewPage (BrowserContext 2) (Inr (Page 3)),
      Goto (Page 3) ''https://example.com'' (Inr ()),
      HandleOperation ''navigate'' (Page 3) 0 (Inr page_item),
      Close (Browser 1) (Inr ()),
      Push [page_item]]"

definition unreachable_log :: "event list" where
  "unreachable_log =
     [GetCredentials (Inr path_credentials),
      Launch ''firefox'' (LaunchOptions True 50 ''/usr/bin/firefox'') (Inr (Browser 1)),
      NewContext (Browser 1) (Inr (BrowserContext 2)),
      NewPage (BrowserContext 2) (Inr (Page 3)),
      Goto (Page 3) ''https://unreachable.invalid'' (Inl (Error ''net::ERR_NAME_NOT_RESOLVED''))]"

text \<open>
  The world of \<open>example_env\<close> with no network: the installer throws. Its first item logs
  the credential lookup, one call of the locator and one call of the installer.
\<close>

definition offline_env :: "nat env" where
  "offline_env = example_env
     \<lparr>installBrowser := (\<lambda>bt w. (Inl (Error ''Failed to download browser''), w))\<rparr>"

definition offline_log :: "event list" where
  "offline_log =
     [GetCredentials (Inr launch_credentials),
      GetBrowserExecutablePath ''firefox'' ''/opt/node/browsers''
        (Inl (Error ''Browser executable not found'')),
      InstallBrowser ''firefox'' (Inl (Error ''Failed to download browser''))]"

text \<open>Whether an event is a call of the browser locator.\<close>

fun is_locate :: "event \<Rightarrow> bool" where
  "is_locate (GetBrowserExecutablePath _ _ _) = True"
| "is_locate _ = False"

text \<open>
  A world with three items where the second is a custom script that returns two items, and
  the logs of its second and third items; the first item logs \<open>first_log\<close>.
\<close>

definition title_item :: INodeExecutionData where
  "title_item = \<lparr>json = [(''title'', JString ''Example Domain'')], binary = None\<rparr>"

definition links_item :: INodeExecutionData where
  "links_item = \<lparr>json = [(''links'', JNumber 1)], binary = None\<rparr>"

definition mixed_env :: "nat env" where
  "mixed_env = example_env
     \<lparr>getInputData := [\<lparr>json = [], binary = None\<rparr>, \<lparr>json = [], binary = None\<rparr>,
                       \<lparr>json = [], binary = None\<rparr>],
      getNodeParameter_operation := (\<lambda>i. Inr (if i = 1 then ''runCustomScript'' else ''navigate'')),
      getCredentials := (\<lambda>w. (Inr path_credentials, w)),
      runCustomScript := (\<lambda>i b pg w. (Inr [title_item, links_item], w))\<rparr>"

definition two_items_log :: "event list" where
  "two_items_log =
     [GetCredentials (Inr path_credentials),
      Launch ''firefox'' (LaunchOptions True 50 ''/usr/bin/firefox'') (Inr (Browser 1)),
      NewContext (Browser 1) (Inr (BrowserContext 2)),
      NewPage (BrowserContext 2) (Inr (Page 3)),
      RunCustomScript 1 (Browser 1) (Page 3) (Inr [title_item, links_item]),
      Close (Browser 1) (Inr ()),
      Push [title_item, links_item]]"

definition third_log :: "event list" where
  "third_log =
     [GetCredentials (Inr path_credentials),
      Launch ''firefox'' (LaunchOptions True 50 ''/usr/bin/firefox'') (Inr (Browser 1)),
      NewContext (Browser 1) (Inr (BrowserContext 2)),
      NewPage (BrowserContext 2) (Inr (Page 3)),
      Goto (Page 3) ''https://example.com'' (Inr ()),
      HandleOperation ''navigate'' (Page 3) 2 (Inr page_item),
      Close (Browser 1) (Inr ()),
      Push [page_item]]"

text \<open>
  The world of \<open>flaky_env\<close> with continue-on-fail on, and the item it pushes for the
  second item.
\<close>

definition tolerant_env :: "nat env" where
  "tolerant_env = flaky_env\<lparr>continueOnFail := True\<rparr>"

definition unreachable_item :: INodeExecutionData where
  "unreachable_item = error_item (JString ''net::ERR_NAME_NOT_RESOLVED'') ''firefox'' ''linux''"

text \<open>
  A world with continue-on-fail on whose custom script throws \<^verbatim>\<open>null\<close>, and the log of its
  first item.
\<close>

definition null_env :: "nat env" where
  "null_env = example_env
     \<lparr>getNodeParameter_operation := (\<lambda>i. Inr ''runCustomScript''),
      continueOnFail := True,
      getCredentials := (\<lambda>w. (Inr path_credentials, w)),
      runCustomScript := (\<lambda>i b pg w. (Inl Thrown_null, w))\<rparr>"

definition null_log :: "event list" where
  "null_log =
     [GetCredentials (Inr path_credentials),
      Launch ''firefox'' (LaunchOptions True 50 ''/usr/bin/firefox'') (Inr (Browser 1)),
      NewContext (Browser 1) (Inr (BrowserContext 2)),
      NewPage (BrowserContext 2) (Inr (Page 3)),
      RunCustomScript 0 (Browser 1) (Page 3) (Inl Thrown_null)]"

section \<open>Symbolic execution\<close>

declare execute_loop.simps [simp del]

lemmas flow_defs =
  return_def throw_def bind_def try_catch_def call_def getNodeParameter_def property_read_def
  push_def

lemma bindE:
  assumes "bind m k s = (r, s')"
  obtains (fail) e where "m s = (Inl e, s')" "r = Inl e"
        | (ok) x s1 where "m s = (Inr x, s1)" "k x s1 = (r, s')"
  using assms by (auto simp: bind_def split: prod.splits sum.splits)

lemma callE:
  assumes "call ev f s = (r, s')"
  obtains w' where "f (world s) = (r, w')"
    and "s' = s\<lparr>world := w', trace := trace s @ [ev r]\<rparr>"
  using assms by (auto simp: call_def split: prod.splits)

lemma try_catchE:
  assumes "try_catch m h s = (r, s')"
  obtains (caught) e s1 where "m s = (Inl e, s1)" "h e s1 = (r, s')"
        | (ok) x where "m s = (Inr x, s')" "r = Inr x"
  using assms by (auto simp: try_catch_def split: prod.splits sum.splits)

lemma pushE:
  assumes "push xs s = (r, s')"
  obtains "r = Inr ()"
    and "s' = s\<lparr>trace := trace s @ [Push xs], returnData := returnData s @ xs\<rparr>"
  using assms by (auto simp: push_def)

lemma getNodeParameterE:
  assumes "getNodeParameter v s = (r, s')"
  obtains "r = v" and "s' = s"
  using assms by (auto simp: getNodeParameter_def)

lemma throwE:
  assumes "throw e s = (r, s')"
  obtains "r = Inl e" and "s' = s"
  using assms by (auto simp: throw_def)

lemma returnE:
  assumes "return x s = (r, s')"
  obtains "r = Inr x" and "s' = s"
  using assms by (auto simp: return_def)

lemma property_readE:
  assumes "property_read v s = (r, s')"
  obtains "r = v" and "s' = s"
  using assms by (auto simp: property_read_def)

lemmas flowE = bindE callE try_catchE pushE getNodeParameterE property_readE throwE returnE

lemma new_events_append: "trace s' = trace s @ evs \<Longrightarrow> new_events s s' = evs"
  by (simp add: new_events_def)

section \<open>The log of one item\<close>

lemma acquisition_ok_iff:
  "acquisition_ok bt bo creds ev \<longleftrightarrow> acquisition_event ev \<and>
     (\<forall>bt' opts r'. ev = Launch bt' opts r' \<longrightarrow>
        bt' = bt \<and> opt_headless opts = (headless bo \<noteq> Some False) \<and>
        opt_slowMo opts = slowMo_or_0 bo) \<and>
     (\<forall>u m r'. ev = ConnectOverCDP u m r' \<longrightarrow>
        connectionType creds = Some ''connect'' \<and> u = endpointUrl creds \<and> m = slowMo_or_0 bo)"
  by (cases ev) auto

lemma acquisition_logD:
  assumes "acquisition_log bt bo creds acq"
  shows "list_all acquisition_event acq"
    and "Launch bt' opts r' \<in> set acq \<Longrightarrow>
        bt' = bt \<and> opt_headless opts = (headless bo \<noteq> Some False) \<and>
        opt_slowMo opts = slowMo_or_0 bo"
    and "ConnectOverCDP u m r' \<in> set acq \<Longrightarrow>
        connectionType creds = Some ''connect'' \<and> u = endpointUrl creds \<and> m = slowMo_or_0 bo"
proof -
  have ok: "acquisition_ok bt bo creds ev" if "ev \<in> set acq" for ev
    using assms that by (simp add: acquisition_log_def list_all_iff)
  show "list_all acquisition_event acq"
    unfolding list_all_iff
  proof
    fix ev assume "ev \<in> set acq"
    from ok [OF this] show "acquisition_event ev" by (simp add: acquisition_ok_iff)
  qed
  show "bt' = bt \<and> opt_headless opts = (headless bo \<noteq> Some False) \<and>
        opt_slowMo opts = slowMo_or_0 bo" if "Launch bt' opts r' \<in> set acq"
    using ok [OF that] by simp
  show "connectionType creds = Some ''connect'' \<and> u = endpointUrl creds \<and> m = slowMo_or_0 bo"
    if "ConnectOverCDP u m r' \<in> set acq"
    using ok [OF that] by simp
qed

lemma acquisition_logI:
  assumes a: "list_all acquisition_event acq"
    and b: "\<And>bt' opts r'. Launch bt' opts r' \<in> set acq \<Longrightarrow>
        bt' = bt \<and> opt_headless opts = (headless bo \<noteq> Some False) \<and>
        opt_slowMo opts = slowMo_or_0 bo"
    and c: "\<And>u m r'. ConnectOverCDP u m r' \<in> set acq \<Longrightarrow>
        connectionType creds = Some ''connect'' \<and> u = endpointUrl creds \<and> m = slowMo_or_0 bo"
  shows "acquisition_log bt bo creds acq"
  unfolding acquisition_log_def list_all_iff
proof
  fix ev assume m: "ev \<in> set acq"
  from a m have ae: "acquisition_event ev" by (simp add: list_all_iff)
  show "acquisition_ok bt bo creds ev"
  proof (cases ev)
    case (Launch bt' opts r')
    with m b [of bt' opts r'] show ?thesis by simp
  next
    case (ConnectOverCDP u m' r')
    with m c [of u m' r'] show ?thesis by simp
  qed (use ae in simp_all)
qed

lemma acquisition_log_iff:
  "acquisition_log bt bo creds acq \<longleftrightarrow> list_all acquisition_event acq \<and>
     (\<forall>bt' opts r'. Launch bt' opts r' \<in> set acq \<longrightarrow>
        bt' = bt \<and> opt_headless opts = (headless bo \<noteq> Some False) \<and>
        opt_slowMo opts = slowMo_or_0 bo) \<and>
     (\<forall>u m r'. ConnectOverCDP u m r' \<in> set acq \<longrightarrow>
        connectionType creds = Some ''connect'' \<and> u = endpointUrl creds \<and> m = slowMo_or_0 bo)"
proof (rule iffI)
  assume l: "acquisition_log bt bo creds acq"
  show "list_all acquisition_event acq \<and>
     (\<forall>bt' opts r'. Launch bt' opts r' \<in> set acq \<longrightarrow>
        bt' = bt \<and> opt_headless opts = (headless bo \<noteq> Some False) \<and>
        opt_slowMo opts = slowMo_or_0 bo) \<and>
     (\<forall>u m r'. ConnectOverCDP u m r' \<in> set acq \<longrightarrow>
        connectionType creds = Some ''connect'' \<and> u = endpointUrl creds \<and> m = slowMo_or_0 bo)"
    by (intro conjI allI impI acquisition_logD(1) [OF l] acquisition_logD(2) [OF l]
        acquisition_logD(3) [OF l])
next
  assume r: "list_all acquisition_event acq \<and>
     (\<forall>bt' opts r'. Launch bt' opts r' \<in> set acq \<longrightarrow>
        bt' = bt \<and> opt_headless opts = (headless bo \<noteq> Some False) \<and>
        opt_slowMo opts = slowMo_or_0 bo) \<and>
     (\<forall>u m r'. ConnectOverCDP u m r' \<in> set acq \<longrightarrow>
        connectionType creds = Some ''connect'' \<and> u = endpointUrl creds \<and> m = slowMo_or_0 bo)"
  from r have a: "list_all acquisition_event acq" by (rule conjunct1)
  from r have b: "\<forall>bt' opts r'. Launch bt' opts r' \<in> set acq \<longrightarrow>
        bt' = bt \<and> opt_headless opts = (headless bo \<noteq> Some False) \<and>
        opt_slowMo opts = slowMo_or_0 bo" by (rule conjunct1 [OF conjunct2])
  from r have c: "\<forall>u m r'. ConnectOverCDP u m r' \<in> set acq \<longrightarrow>
        connectionType creds = Some ''connect'' \<and> u = endpointUrl creds \<and> m = slowMo_or_0 bo"
    by (rule conjunct2 [OF conjunct2])
  show "acquisition_log bt bo creds acq"
  proof (rule acquisition_logI [OF a])
    fix bt' opts r' assume "Launch bt' opts r' \<in> set acq"
    then show "bt' = bt \<and> opt_headless opts = (headless bo \<noteq> Some False) \<and>
        opt_slowMo opts = slowMo_or_0 bo" by (rule b [rule_format])
  next
    fix u m r' assume "ConnectOverCDP u m r' \<in> set acq"
    then show "connectionType creds = Some ''connect'' \<and> u = endpointUrl creds \<and>
        m = slowMo_or_0 bo"
      by (rule c [rule_format])
  qed
qed

lemma slowMo_or_0_eq: "slowMo_or_0 bo = (case slowMo bo of None \<Rightarrow> 0 | Some n \<Rightarrow> n)"
  by (simp add: slowMo_or_0_def split: option.splits)

lemma acquire_browser_events:
  assumes "acquire_browser env bt bo creds s = (r, s')"
  obtains evs where "returnData s' = returnData s" and "trace s' = trace s @ evs"
    and "acquisition_log bt bo creds evs"
  using assms unfolding acquire_browser_def resolve_executablePath_def locate_def acquisition_log_iff
  by (auto elim!: flowE split: if_splits)

lemma acquire_browser_success:
  assumes "acquire_browser env bt bo creds s = (Inr b, s')"
  shows "\<exists>pre ev. new_events s s' = pre @ [ev] \<and>
           ((\<exists>opts. ev = Launch bt opts (Inr b)) \<or> (\<exists>u m. ev = ConnectOverCDP u m (Inr b)))"
  using assms unfolding acquire_browser_def resolve_executablePath_def locate_def new_events_def
  by (auto elim!: flowE split: if_splits)

lemma run_operation_events:
  assumes "run_operation env i operation b s = (r, s')"
  shows "\<exists>evs. trace s' = trace s @ evs \<and> list_all (\<lambda>ev. \<not> acquisition_event ev) evs \<and>
           (\<forall>e. r = Inl e \<longrightarrow> returnData s' = returnData s)"
  using assms unfolding run_operation_def
  by (auto elim!: flowE split: if_splits)

lemma try_blockE:
  assumes "try_block env i operation bt bo s = (r, s')"
  obtains (credentials_failed) e w1 where
      "getCredentials env (world s) = (Inl e, w1)" and "r = Inl e"
      and "trace s' = trace s @ [GetCredentials (Inl e)]" and "returnData s' = returnData s"
  | (acquisition_failed) creds w1 e acq where
      "getCredentials env (world s) = (Inr creds, w1)" and "r = Inl e"
      and "trace s' = trace s @ GetCredentials (Inr creds) # acq"
      and "returnData s' = returnData s" and "acquisition_log bt bo creds acq"
  | (acquired) creds w1 b s2 pre ev where
      "getCredentials env (world s) = (Inr creds, w1)"
      and "acquire_browser env bt bo creds
             (s\<lparr>world := w1, trace := trace s @ [GetCredentials (Inr creds)]\<rparr>) = (Inr b, s2)"
      and "trace s2 = trace s @ GetCredentials (Inr creds) # pre @ [ev]"
      and "returnData s2 = returnData s"
      and "acquisition_log bt bo creds (pre @ [ev])"
      and "(\<exists>opts. ev = Launch bt opts (Inr b)) \<or> (\<exists>u m. ev = ConnectOverCDP u m (Inr b))"
      and "run_operation env i operation b s2 = (r, s')"
  using assms [unfolded try_block_def]
proof (cases rule: bindE)
  case (fail e)
  from fail(1) obtain w1 where "getCredentials env (world s) = (Inl e, w1)"
    and "s' = s\<lparr>world := w1, trace := trace s @ [GetCredentials (Inl e)]\<rparr>"
    by (rule callE)
  with fail(2) show ?thesis by (intro credentials_failed) simp_all
next
  case (ok creds s1)
  from ok(1) obtain w1 where w1: "getCredentials env (world s) = (Inr creds, w1)"
    and s1: "s1 = s\<lparr>world := w1, trace := trace s @ [GetCredentials (Inr creds)]\<rparr>"
    by (rule callE)
  from ok(2) show ?thesis
  proof (cases rule: bindE)
    case (fail e)
    from fail(1) obtain evs where
      "returnData s' = returnData s1" "trace s' = trace s1 @ evs" "acquisition_log bt bo creds evs"
      by (rule acquire_browser_events)
    with w1 s1 fail(2) show ?thesis by (intro acquisition_failed) simp_all
  next
    case (ok b s2)
    from ok(1) obtain es where es: "returnData s2 = returnData s1" "trace s2 = trace s1 @ es"
      "acquisition_log bt bo creds es"
      by (rule acquire_browser_events)
    from acquire_browser_success [OF ok(1)] es(2) obtain pre ev where pe: "es = pre @ [ev]"
      "(\<exists>opts. ev = Launch bt opts (Inr b)) \<or> (\<exists>u m. ev = ConnectOverCDP u m (Inr b))"
      by (auto simp: new_events_append)
    show ?thesis
      using w1 s1 ok es pe by (intro acquired [of creds w1 b s2 pre ev]) simp_all
  qed
qed

lemma loop_bodyE:
  assumes "loop_body env i s = (r, s')"
  obtains (read_failed) e where
      "read_parameters env i = Inl e" and "r = Inl e" and "s' = s"
  | (succeeded) operation bt bo where
      "read_parameters env i = Inr (operation, bt, bo)"
      and "try_block env i operation bt bo s = (Inr (), s')" and "r = Inr ()"
  | (error_pushed) operation bt bo e s1 m where
      "read_parameters env i = Inr (operation, bt, bo)"
      and "try_block env i operation bt bo s = (Inl e, s1)"
      and "continueOnFail env" and "error_message e = Inr m" and "r = Inr ()"
      and "s' = s1\<lparr>trace := trace s1 @ [Push [error_item m bt (platform env)]],
                    returnData := returnData s1 @ [error_item m bt (platform env)]\<rparr>"
  | (handler_threw) operation bt bo e t where
      "read_parameters env i = Inr (operation, bt, bo)"
      and "try_block env i operation bt bo s = (Inl e, s')"
      and "continueOnFail env" and "error_message e = Inl t" and "r = Inl t"
  | (error_rethrown) operation bt bo e where
      "read_parameters env i = Inr (operation, bt, bo)"
      and "try_block env i operation bt bo s = (Inl e, s')"
      and "\<not> continueOnFail env" and "r = Inl e"
proof (cases "read_parameters env i")
  case (Inl e)
  with assms show ?thesis
    by (intro read_failed [of e]) (simp_all add: loop_body_def bind_def getNodeParameter_def)
next
  case (Inr params)
  obtain operation bt bo where params: "params = (operation, bt, bo)"
    by (cases params)
  from assms Inr params
  have tc: "try_catch (try_block env i operation bt bo) (catch_block env bt) s = (r, s')"
    by (simp add: loop_body_def bind_def getNodeParameter_def)
  from tc show ?thesis
  proof (cases rule: try_catchE)
    case (caught e s1)
    show ?thesis
    proof (cases "continueOnFail env")
      case True
      show ?thesis
      proof (cases "error_message e")
        case (Inl t)
        with caught Inr params True show ?thesis
          by (intro handler_threw [of operation bt bo e t])
            (auto simp: catch_block_def bind_def property_read_def)
      next
        case m: (Inr m)
        with caught Inr params True show ?thesis
          by (intro error_pushed [of operation bt bo e s1 m])
            (auto simp: catch_block_def bind_def property_read_def push_def)
      qed
    next
      case False
      with caught Inr params show ?thesis
        by (intro error_rethrown [of operation bt bo e]) (auto simp: catch_block_def throw_def)
    qed
  next
    case (ok x)
    with Inr params show ?thesis
      by (intro succeeded [of operation bt bo]) simp_all
  qed
qed

lemma acquisition_log_GetCredentials [simp]:
  "acquisition_log bt bo creds (GetCredentials x # acq) = acquisition_log bt bo creds acq"
  by (auto simp: acquisition_log_iff)

lemma acquisition_log_single [simp]: "acquisition_log bt bo creds []"
  by (simp add: acquisition_log_iff)

lemma sublist_embed: "sublist xs run \<Longrightarrow> sublist xs (acq @ run @ post)"
proof -
  assume "sublist xs run"
  then obtain ps ss where "run = ps @ xs @ ss" by (auto simp: sublist_def)
  then have "acq @ run @ post = (acq @ ps) @ xs @ (ss @ post)" by simp
  then show ?thesis unfolding sublist_def by blast
qed

lemma try_block_log:
  assumes "try_block env i operation bt bo s = (r, s')"
  obtains acq run creds where
    "trace s' = trace s @ acq @ run"
    and "acquisition_log bt bo creds acq"
    and "\<forall>c w1. getCredentials env (world s) = (Inr c, w1) \<longrightarrow> c = creds"
    and "list_all (\<lambda>ev. \<not> acquisition_event ev) run"
    and "run = [] \<or> (\<exists>b s2 pre ev. run_operation env i operation b s2 = (r, s') \<and>
           trace s' = trace s2 @ run \<and> acq = pre @ [ev] \<and>
           ((\<exists>opts. ev = Launch bt opts (Inr b)) \<or> (\<exists>u m. ev = ConnectOverCDP u m (Inr b))))"
  using assms
proof (cases rule: try_blockE)
  case (credentials_failed e w1)
  then show ?thesis
    by (intro that [of "[GetCredentials (Inl e)]" "[]" undefined]) simp_all
next
  case (acquisition_failed creds w1 e acq)
  then show ?thesis
    by (intro that [of "GetCredentials (Inr creds) # acq" "[]" creds]) simp_all
next
  case (acquired creds w1 b s2 pre ev)
  from run_operation_events [OF acquired(7)] obtain evs where
    evs: "trace s' = trace s2 @ evs" "list_all (\<lambda>ev. \<not> acquisition_event ev) evs"
    by blast
  show ?thesis
  proof (rule that [of "GetCredentials (Inr creds) # pre @ [ev]" evs creds])
    show "trace s' = trace s @ (GetCredentials (Inr creds) # pre @ [ev]) @ evs"
      using evs acquired(3) by simp
    show "acquisition_log bt bo creds (GetCredentials (Inr creds) # pre @ [ev])"
      using acquired(5) by simp
    show "\<forall>c w1. getCredentials env (world s) = (Inr c, w1) \<longrightarrow> c = creds"
      using acquired(1) by simp
    show "list_all (\<lambda>ev. \<not> acquisition_event ev) evs" by (rule evs(2))
    have "run_operation env i operation b s2 = (r, s') \<and>
           trace s' = trace s2 @ evs \<and>
           GetCredentials (Inr creds) # pre @ [ev] = (GetCredentials (Inr creds) # pre) @ [ev] \<and>
           ((\<exists>opts. ev = Launch bt opts (Inr b)) \<or> (\<exists>u m. ev = ConnectOverCDP u m (Inr b)))"
      using acquired(6,7) evs(1) by simp
    then show "evs = [] \<or> (\<exists>b s2 prea eva. run_operation env i operation b s2 = (r, s') \<and>
           trace s' = trace s2 @ evs \<and>
           GetCredentials (Inr creds) # pre @ [ev] = prea @ [eva] \<and>
           ((\<exists>opts. eva = Launch bt opts (Inr b)) \<or> (\<exists>u m. eva = ConnectOverCDP u m (Inr b))))"
      by (intro disjI2) (intro exI)
  qed
qed

lemma loop_body_log:
  assumes "loop_body env i s = (r, s')" and "read_parameters env i = Inr (operation, bt, bo)"
  obtains acq run post creds where
    "trace s' = trace s @ acq @ run @ post"
    and "acquisition_log bt bo creds acq"
    and "\<forall>c w1. getCredentials env (world s) = (Inr c, w1) \<longrightarrow> c = creds"
    and "list_all (\<lambda>ev. \<not> acquisition_event ev) run"
    and "post = [] \<or> (\<exists>e. post = [Push [error_item e bt (platform env)]])"
    and "run = [] \<or> (\<exists>b s2 s3 r3 pre ev. run_operation env i operation b s2 = (r3, s3) \<and>
           trace s3 = trace s2 @ run \<and> acq = pre @ [ev] \<and>
           ((\<exists>opts. ev = Launch bt opts (Inr b)) \<or> (\<exists>u m. ev = ConnectOverCDP u m (Inr b))))"
proof -
  note outer = that
  have lift: thesis
    if tb: "try_block env i operation bt bo s = (r1, s1)"
      and s': "trace s' = trace s1 @ post"
      and post: "post = [] \<or> (\<exists>e. post = [Push [error_item e bt (platform env)]])"
    for r1 s1 post
  proof -
    from tb obtain acq run creds where
      a: "trace s1 = trace s @ acq @ run"
      "acquisition_log bt bo creds acq"
      "\<forall>c w1. getCredentials env (world s) = (Inr c, w1) \<longrightarrow> c = creds"
      "list_all (\<lambda>ev. \<not> acquisition_event ev) run"
      "run = [] \<or> (\<exists>b s2 pre ev. run_operation env i operation b s2 = (r1, s1) \<and>
           trace s1 = trace s2 @ run \<and> acq = pre @ [ev] \<and>
           ((\<exists>opts. ev = Launch bt opts (Inr b)) \<or> (\<exists>u m. ev = ConnectOverCDP u m (Inr b))))"
      by (rule try_block_log)
    show thesis
    proof (rule outer [of acq run post creds])
      show "trace s' = trace s @ acq @ run @ post" using a(1) s' by simp
      show "run = [] \<or> (\<exists>b s2 s3 r3 pre ev. run_operation env i operation b s2 = (r3, s3) \<and>
           trace s3 = trace s2 @ run \<and> acq = pre @ [ev] \<and>
           ((\<exists>opts. ev = Launch bt opts (Inr b)) \<or> (\<exists>u m. ev = ConnectOverCDP u m (Inr b))))"
        using a(5) by blast
    qed (use a post in simp_all)
  qed
  from assms(1) show ?thesis
  proof (cases rule: loop_bodyE)
    case (read_failed e)
    with assms(2) show ?thesis by simp
  next
    case (succeeded operation' bt' bo')
    with assms(2) have "try_block env i operation bt bo s = (Inr (), s')" by simp
    then show ?thesis by (rule lift [where post = "[]"]) simp_all
  next
    case (error_pushed operation' bt' bo' e s1 m)
    with assms(2) have tb: "try_block env i operation bt bo s = (Inl e, s1)"
      and s': "s' = s1\<lparr>trace := trace s1 @ [Push [error_item m bt (platform env)]],
                    returnData := returnData s1 @ [error_item m bt (platform env)]\<rparr>"
      by simp_all
    from tb show ?thesis
      by (rule lift [where post = "[Push [error_item m bt (platform env)]]"]) (auto simp: s')
  next
    case (handler_threw operation' bt' bo' e t)
    with assms(2) have "try_block env i operation bt bo s = (Inl e, s')" by simp
    then show ?thesis by (rule lift [where post = "[]"]) simp_all
  next
    case (error_rethrown operation' bt' bo' e)
    with assms(2) have "try_block env i operation bt bo s = (Inl e, s')" by simp
    then show ?thesis by (rule lift [where post = "[]"]) simp_all
  qed
qed


lemma acquisition_log_events:
  "acquisition_log bt bo creds acq \<Longrightarrow> ev \<in> set acq \<Longrightarrow> acquisition_event ev"
  by (simp add: acquisition_log_iff list_all_iff)

lemma not_acquisition_events:
  "list_all (\<lambda>ev. \<not> acquisition_event ev) run \<Longrightarrow> ev \<in> set run \<Longrightarrow> \<not> acquisition_event ev"
  by (simp add: list_all_iff)

lemma run_operation_success:
  assumes "run_operation env i operation b s = (Inr (), s')"
  shows "\<exists>cx p mid out.
           trace s' = trace s @ [NewContext b (Inr cx), NewPage cx (Inr p)] @ mid @
             [Close b (Inr ()), Push out]
         \<and> returnData s' = returnData s @ out
         \<and> (if operation = ''runCustomScript'' then mid = [RunCustomScript i b p (Inr out)]
            else (\<exists>u x. getNodeParameter_url env i = Inr u \<and>
                    mid = [Goto p u (Inr ()), HandleOperation operation p i (Inr x)] \<and>
                    out = [x]))"
  using assms unfolding run_operation_def
  by (auto elim!: flowE split: if_splits)

lemma run_operation_close:
  assumes "run_operation env i operation b s = (r, s')" and "trace s' = trace s @ run"
  shows "\<forall>b' rc. Close b' rc \<in> set run \<longrightarrow> b' = b \<and>
           ((\<exists>p x. sublist [HandleOperation operation p i (Inr x), Close b rc] run) \<or>
            (\<exists>p xs. sublist [RunCustomScript i b p (Inr xs), Close b rc] run)) \<and>
           (\<forall>e. r = Inl e \<longrightarrow> rc = Inl e \<and> suffix [Close b (Inl e)] run)"
  using assms unfolding run_operation_def
  by (auto elim!: flowE simp: sublist_Cons_right suffix_Cons split: if_splits)

section \<open>The loop\<close>

lemma execute_loop_step:
  "i < n \<Longrightarrow> loop_body env i s = (Inr (), s') \<Longrightarrow>
   execute_loop env n i s = execute_loop env n (Suc i) s'"
  by (subst execute_loop.simps) simp

lemma execute_loop_fail:
  "i < n \<Longrightarrow> loop_body env i s = (Inl e, s') \<Longrightarrow> execute_loop env n i s = (Inl e, s')"
  by (subst execute_loop.simps) simp

lemma execute_loop_done: "\<not> i < n \<Longrightarrow> execute_loop env n i s = (Inr (), s)"
  by (subst execute_loop.simps) simp

lemma execute_loop_split:
  "j \<le> i \<Longrightarrow> i \<le> n \<Longrightarrow> execute_loop env i j s0 = (Inr (), s) \<Longrightarrow>
   execute_loop env n j s0 = execute_loop env n i s"
proof (induction env i j s0 rule: execute_loop.induct)
  case (1 env i j s0)
  show ?case
  proof (cases "j < i")
    case False
    with "1.prems" have "j = i" by simp
    with "1.prems" show ?thesis by (simp add: execute_loop_done)
  next
    case True
    obtain r1 s1 where lb: "loop_body env j s0 = (r1, s1)" by (cases "loop_body env j s0")
    show ?thesis
    proof (cases r1)
      case (Inl e)
      with True lb "1.prems"(3) show ?thesis by (simp add: execute_loop_fail)
    next
      case (Inr u)
      with lb have lb': "loop_body env j s0 = (Inr (), s1)" by simp
      from True "1.prems" have jn: "j < n" by simp
      from "1.prems"(3) have "execute_loop env i (Suc j) s1 = (Inr (), s)"
        by (simp add: execute_loop_step [OF True lb'])
      with "1.IH" [OF True lb' [symmetric] refl] True "1.prems"(2)
      have "execute_loop env n (Suc j) s1 = execute_loop env n i s" by simp
      then show ?thesis by (simp add: execute_loop_step [OF jn lb'])
    qed
  qed
qed

lemma try_block_returnData:
  assumes "try_block env i operation bt bo s = (r, s')"
  shows "prefix (returnData s) (returnData s') \<and> (\<forall>e. r = Inl e \<longrightarrow> returnData s' = returnData s)"
  using assms
proof (cases rule: try_blockE)
  case (acquired creds w1 b s2 pre ev)
  show ?thesis
  proof (cases r)
    case (Inl e)
    with run_operation_events [OF acquired(7)] acquired(4) show ?thesis by auto
  next
    case (Inr u)
    with run_operation_success [of env i operation b s2 s'] acquired(7,4) show ?thesis by auto
  qed
qed simp_all

lemma loop_body_returnData:
  assumes "loop_body env i s = (r, s')"
  shows "prefix (returnData s) (returnData s')"
  using assms
proof (cases rule: loop_bodyE)
  case (error_pushed operation bt bo e s1)
  with try_block_returnData [OF error_pushed(2)] show ?thesis by simp
qed (auto dest: try_block_returnData)

lemma execute_loop_returnData:
  "execute_loop env n i s = (r, s') \<Longrightarrow> prefix (returnData s) (returnData s')"
proof (induction env n i s rule: execute_loop.induct)
  case (1 env n i s)
  show ?case
  proof (cases "i < n")
    case False
    with "1.prems" show ?thesis by (simp add: execute_loop_done)
  next
    case True
    obtain r1 s1 where lb: "loop_body env i s = (r1, s1)" by (cases "loop_body env i s")
    note p1 = loop_body_returnData [OF lb]
    show ?thesis
    proof (cases r1)
      case (Inl e)
      with True lb "1.prems" p1 show ?thesis by (simp add: execute_loop_fail)
    next
      case (Inr u)
      with lb have lb': "loop_body env i s = (Inr (), s1)" by simp
      from "1.prems" have "execute_loop env n (Suc i) s1 = (r, s')"
        by (simp add: execute_loop_step [OF True lb'])
      from "1.IH" [OF True lb' [symmetric] refl this] p1 show ?thesis
        by (rule prefix_order.trans [rotated])
    qed
  qed
qed

text \<open>What \<^verbatim>\<open>execute\<close> returns holds what a turn of the loop left in \<^verbatim>\<open>returnData\<close>.\<close>

lemma execute_output_after:
  assumes "execute_loop env i 0 \<lparr>world = w, trace = [], returnData = []\<rparr> = (Inr (), s)"
    and "i < length (getInputData env)"
    and "loop_body env i s = (Inr (), s')"
    and "execute env w = (Inr outs, s_end)"
  shows "\<exists>rest. outs = [returnData s' @ rest]"
proof -
  let ?n = "length (getInputData env)"
  let ?init = "\<lparr>world = w, trace = [], returnData = []\<rparr>"
  from assms(1,2) have "execute_loop env ?n 0 ?init = execute_loop env ?n i s"
    by (intro execute_loop_split) simp_all
  also from assms(2,3) have "\<dots> = execute_loop env ?n (Suc i) s'"
    by (rule execute_loop_step)
  finally have run: "execute_loop env ?n 0 ?init = execute_loop env ?n (Suc i) s'" .
  obtain r s2 where res: "execute_loop env ?n (Suc i) s' = (r, s2)"
    by (cases "execute_loop env ?n (Suc i) s'")
  from assms(4) run res have outs: "outs = [returnData s2]"
    by (cases r) (auto simp: execute_def)
  from execute_loop_returnData [OF res] obtain rest where "returnData s2 = returnData s' @ rest"
    by (auto simp: prefix_def)
  with outs show ?thesis by simp
qed

section \<open>A concrete run\<close>

lemmas body_defs =
  loop_body_def try_block_def acquire_browser_def resolve_executablePath_def locate_def
  run_operation_def catch_block_def read_parameters_def slowMo_or_0_def

lemma example_read:
  "read_parameters example_env 0 = Inr (''navigate'', ''firefox'', example_options)"
  by (simp add: read_parameters_def example_env_def example_options_def)

lemma example_try_block:
  "try_block example_env 0 ''navigate'' ''firefox'' example_options fresh =
     (Inr (), \<lparr>world = 1, trace = example_log, returnData = [page_item]\<rparr>)"
  by (simp add: body_defs flow_defs example_env_def example_options_def fresh_def example_log_def
      launch_credentials_def)

lemma example_loop_body:
  "loop_body example_env 0 fresh =
     (Inr (), \<lparr>world = 1, trace = example_log, returnData = [page_item]\<rparr>)"
  using example_read example_try_block
  by (simp add: loop_body_def bind_def getNodeParameter_def try_catch_def)

lemma example_new_events:
  "new_events fresh \<lparr>world = 1, trace = example_log, returnData = [page_item]\<rparr> = example_log"
  by (simp add: new_events_def fresh_def)

section \<open>Connect mode needs Chromium\<close>

text \<open>
  C1. An item whose credentials say \<^verbatim>\<open>connect\<close> while its browser is not
  \<^verbatim>\<open>chromium\<close> fails with the "Connect Over CDP is only supported for Chromium-based
  browsers" error right after the credentials are fetched: the \<^verbatim>\<open>try\<close> block raises that
  error having logged the credential lookup only, so the turn of the loop either rethrows
  it (continue-on-fail off) or pushes its error item (continue-on-fail on), and
  \<^verbatim>\<open>connectOverCDP\<close> is not called in that turn.
\<close>

theorem connect_requires_chromium:
  assumes "read_parameters env i = Inr (operation, browserType, browserOptions)"
    and "getCredentials env (world s) = (Inr creds, w')"
    and "connectionType creds = Some ''connect''"
    and "browserType \<noteq> ''chromium''"
  shows "try_block env i operation browserType browserOptions s =
           (Inl (Error cdp_message),
            s\<lparr>world := w', trace := trace s @ [GetCredentials (Inr creds)]\<rparr>)
       \<and> loop_body env i s =
           (if continueOnFail env then
              (Inr (), s\<lparr>world := w',
                 trace := trace s @ [GetCredentials (Inr creds),
                   Push [error_item (JString cdp_message) browserType (platform env)]],
                 returnData := returnData s @
                   [error_item (JString cdp_message) browserType (platform env)]\<rparr>)
            else (Inl (Error cdp_message),
                   s\<lparr>world := w', trace := trace s @ [GetCredentials (Inr creds)]\<rparr>))
       \<and> (\<forall>u m r. ConnectOverCDP u m r \<notin> set (new_events s (snd (loop_body env i s))))"
  using assms
  by (simp add: loop_body_def try_block_def acquire_browser_def catch_block_def flow_defs
      new_events_def)

theorem connect_requires_chromium_witness:
  "read_parameters connect_env 0 = Inr (''navigate'', ''firefox'', \<lparr>headless = None, slowMo = Some 50\<rparr>)
 \<and> getCredentials connect_env 0 = (Inr connect_credentials, 0)
 \<and> connectionType connect_credentials = Some ''connect''
 \<and> ''firefox'' \<noteq> ''chromium''
 \<and> loop_body connect_env 0 \<lparr>world = 0, trace = [], returnData = []\<rparr> =
       (Inl (Error cdp_message),
        \<lparr>world = 0, trace = [GetCredentials (Inr connect_credentials)], returnData = []\<rparr>)"
proof -
  have h1: "read_parameters connect_env 0 =
      Inr (''navigate'', ''firefox'', \<lparr>headless = None, slowMo = Some 50\<rparr>)"
    by (simp add: read_parameters_def connect_env_def example_env_def)
  have h2: "getCredentials connect_env (world \<lparr>world = 0, trace = [], returnData = []\<rparr>) =
      (Inr connect_credentials, 0)"
    by (simp add: connect_env_def example_env_def)
  have h3: "connectionType connect_credentials = Some ''connect''"
    by (simp add: connect_credentials_def)
  have h4: "''firefox'' \<noteq> ''chromium''" by simp
  have c: "\<not> continueOnFail connect_env"
    by (simp add: connect_env_def example_env_def)
  show ?thesis
    using connect_requires_chromium [OF h1 h2 h3 h4] h1 h2 h3 c by simp
qed

section \<open>The executable path of launch mode\<close>

text \<open>
  C3 as stated does not hold when the installer itself throws: on \<open>offline_env\<close> the
  locator fails, the installer is called once and throws, and its error ends the item; the
  locator is called once in all and is not retried.
\<close>

theorem installer_failure_counterexample:
  "executablePath launch_credentials = Some []
 \<and> connectionType launch_credentials = Some ''launch''
 \<and> resolve_executablePath offline_env ''firefox'' launch_credentials fresh =
     (Inl (Error ''Failed to download browser''),
      \<lparr>world = 0,
       trace = [GetBrowserExecutablePath ''firefox'' ''/opt/node/browsers''
                  (Inl (Error ''Browser executable not found'')),
                InstallBrowser ''firefox'' (Inl (Error ''Failed to download browser''))],
       returnData = []\<rparr>)
 \<and> loop_body offline_env 0 fresh =
     (Inl (Error ''Failed to download browser''),
      \<lparr>world = 0, trace = offline_log, returnData = []\<rparr>)
 \<and> length (filter is_locate offline_log) = 1"
  by (simp add: body_defs flow_defs offline_env_def example_env_def launch_credentials_def
      fresh_def offline_log_def)

text \<open>
  C3, amended. In launch mode the executable path is resolved in this order. A non-empty
  \<^verbatim>\<open>executablePath\<close> of the credentials is used as it is, with no call at all. Otherwise
  the locator is called; if it returns a path, that path is used and the installer is not
  called. If the locator throws (anything but \<^verbatim>\<open>null\<close> or \<^verbatim>\<open>undefined\<close>, so that the handler
  can read the error's message), the installer is called once; if the installer throws,
  its error is the result and the locator is not called again; otherwise the locator is
  called once more and whatever it returns or throws is the result: three calls at most,
  with no further retry. When the locator throws \<^verbatim>\<open>null\<close> or \<^verbatim>\<open>undefined\<close>, the handler's
  read of the message throws and that TypeError is the result, with no call of the
  installer. An error of the resolution is the error of browser acquisition and of the
  item's \<^verbatim>\<open>try\<close> block, with no launch.
\<close>

theorem executable_path_resolution:
  "(\<forall>p. executablePath creds = Some p \<and> p \<noteq> [] \<longrightarrow>
        resolve_executablePath env bt creds s = (Inr p, s))
 \<and> (executablePath creds = None \<or> executablePath creds = Some [] \<longrightarrow>
      (\<forall>p w1. getBrowserExecutablePath env bt (browsersPath env) (world s) = (Inr p, w1) \<longrightarrow>
         resolve_executablePath env bt creds s =
           (Inr p, s\<lparr>world := w1,
              trace := trace s @ [GetBrowserExecutablePath bt (browsersPath env) (Inr p)]\<rparr>))
    \<and> (\<forall>e1 w1 m e2 w2.
         getBrowserExecutablePath env bt (browsersPath env) (world s) = (Inl e1, w1) \<and>
         error_message e1 = Inr m \<and>
         installBrowser env bt w1 = (Inl e2, w2) \<longrightarrow>
         resolve_executablePath env bt creds s =
           (Inl e2, s\<lparr>world := w2,
              trace := trace s @ [GetBrowserExecutablePath bt (browsersPath env) (Inl e1),
                                  InstallBrowser bt (Inl e2)]\<rparr>))
    \<and> (\<forall>e1 w1 m w2 r w3.
         getBrowserExecutablePath env bt (browsersPath env) (world s) = (Inl e1, w1) \<and>
         error_message e1 = Inr m \<and>
         installBrowser env bt w1 = (Inr (), w2) \<and>
         getBrowserExecutablePath env bt (browsersPath env) w2 = (r, w3) \<longrightarrow>
         resolve_executablePath env bt creds s =
           (r, s\<lparr>world := w3,
              trace := trace s @ [GetBrowserExecutablePath bt (browsersPath env) (Inl e1),
                                  InstallBrowser bt (Inr ()),
                                  GetBrowserExecutablePath bt (browsersPath env) r]\<rparr>))
    \<and> (\<forall>e1 w1 t.
         getBrowserExecutablePath env bt (browsersPath env) (world s) = (Inl e1, w1) \<and>
         error_message e1 = Inl t \<longrightarrow>
         resolve_executablePath env bt creds s =
           (Inl t, s\<lparr>world := w1,
              trace := trace s @ [GetBrowserExecutablePath bt (browsersPath env) (Inl e1)]\<rparr>)))
 \<and> (\<forall>bo e s1. connectionType creds \<noteq> Some ''connect'' \<and>
        resolve_executablePath env bt creds s = (Inl e, s1) \<longrightarrow>
        acquire_browser env bt bo creds s = (Inl e, s1))
 \<and> (\<forall>i operation bo s0 w e s1. connectionType creds \<noteq> Some ''connect'' \<and>
        getCredentials env (world s0) = (Inr creds, w) \<and>
        resolve_executablePath env bt creds
          (s0\<lparr>world := w, trace := trace s0 @ [GetCredentials (Inr creds)]\<rparr>) = (Inl e, s1) \<longrightarrow>
        try_block env i operation bt bo s0 = (Inl e, s1))"
proof -
  have fatal: "\<forall>i operation bo s0 w e s1. connectionType creds \<noteq> Some ''connect'' \<and>
        getCredentials env (world s0) = (Inr creds, w) \<and>
        resolve_executablePath env bt creds
          (s0\<lparr>world := w, trace := trace s0 @ [GetCredentials (Inr creds)]\<rparr>) = (Inl e, s1) \<longrightarrow>
        try_block env i operation bt bo s0 = (Inl e, s1)"
    by (simp add: try_block_def acquire_browser_def bind_def call_def)
  have explicit: "\<forall>p. executablePath creds = Some p \<and> p \<noteq> [] \<longrightarrow>
        resolve_executablePath env bt creds s = (Inr p, s)"
    by (auto simp: resolve_executablePath_def return_def)
  have located: "executablePath creds = None \<or> executablePath creds = Some [] \<longrightarrow>
      (\<forall>p w1. getBrowserExecutablePath env bt (browsersPath env) (world s) = (Inr p, w1) \<longrightarrow>
         resolve_executablePath env bt creds s =
           (Inr p, s\<lparr>world := w1,
              trace := trace s @ [GetBrowserExecutablePath bt (browsersPath env) (Inr p)]\<rparr>))
    \<and> (\<forall>e1 w1 m e2 w2.
         getBrowserExecutablePath env bt (browsersPath env) (world s) = (Inl e1, w1) \<and>
         error_message e1 = Inr m \<and>
         installBrowser env bt w1 = (Inl e2, w2) \<longrightarrow>
         resolve_executablePath env bt creds s =
           (Inl e2, s\<lparr>world := w2,
              trace := trace s @ [GetBrowserExecutablePath bt (browsersPath env) (Inl e1),
                                  InstallBrowser bt (Inl e2)]\<rparr>))
    \<and> (\<forall>e1 w1 m w2 r w3.
         getBrowserExecutablePath env bt (browsersPath env) (world s) = (Inl e1, w1) \<and>
         error_message e1 = Inr m \<and>
         installBrowser env bt w1 = (Inr (), w2) \<and>
         getBrowserExecutablePath env bt (browsersPath env) w2 = (r, w3) \<longrightarrow>
         resolve_executablePath env bt creds s =
           (r, s\<lparr>world := w3,
              trace := trace s @ [GetBrowserExecutablePath bt (browsersPath env) (Inl e1),
                                  InstallBrowser bt (Inr ()),
                                  GetBrowserExecutablePath bt (browsersPath env) r]\<rparr>))
    \<and> (\<forall>e1 w1 t.
         getBrowserExecutablePath env bt (browsersPath env) (world s) = (Inl e1, w1) \<and>
         error_message e1 = Inl t \<longrightarrow>
         resolve_executablePath env bt creds s =
           (Inl t, s\<lparr>world := w1,
              trace := trace s @ [GetBrowserExecutablePath bt (browsersPath env) (Inl e1)]\<rparr>))"
    by (auto simp: resolve_executablePath_def locate_def flow_defs)
  have propagates: "\<forall>bo e s1. connectionType creds \<noteq> Some ''connect'' \<and>
        resolve_executablePath env bt creds s = (Inl e, s1) \<longrightarrow>
        acquire_browser env bt bo creds s = (Inl e, s1)"
    by (simp add: acquire_browser_def bind_def)
  from explicit located propagates fatal show ?thesis by (intro conjI)
qed

theorem executable_path_resolution_witness:
  "executablePath launch_credentials = Some []
 \<and> getBrowserExecutablePath example_env ''firefox'' (browsersPath example_env) (world fresh) =
     (Inl (Error ''Browser executable not found''), 0)
 \<and> installBrowser example_env ''firefox'' 0 = (Inr (), 1)
 \<and> getBrowserExecutablePath example_env ''firefox'' (browsersPath example_env) 1 =
     (Inr ''/opt/node/browsers/firefox'', 1)
 \<and> resolve_executablePath example_env ''firefox'' launch_credentials fresh =
     (Inr ''/opt/node/browsers/firefox'',
      fresh\<lparr>world := 1,
        trace := trace fresh @
          [GetBrowserExecutablePath ''firefox'' (browsersPath example_env)
             (Inl (Error ''Browser executable not found'')),
           InstallBrowser ''firefox'' (Inr ()),
           GetBrowserExecutablePath ''firefox'' (browsersPath example_env)
             (Inr ''/opt/node/browsers/firefox'')]\<rparr>)"
proof -
  have h0: "executablePath launch_credentials = Some []"
    by (simp add: launch_credentials_def)
  have h1: "getBrowserExecutablePath example_env ''firefox'' (browsersPath example_env) (world fresh) =
     (Inl (Error ''Browser executable not found''), 0)"
    by (simp add: example_env_def fresh_def)
  have h2: "installBrowser example_env ''firefox'' 0 = (Inr (), 1)"
    by (simp add: example_env_def)
  have h3: "getBrowserExecutablePath example_env ''firefox'' (browsersPath example_env) 1 =
     (Inr ''/opt/node/browsers/firefox'', 1)"
    by (simp add: example_env_def)
  have h4: "error_message (Error ''Browser executable not found'') =
      Inr (JString ''Browser executable not found'')"
    by simp
  from executable_path_resolution [of launch_credentials example_env "''firefox''" fresh] h0
  have "\<forall>e1 w1 m w2 r w3.
         getBrowserExecutablePath example_env ''firefox'' (browsersPath example_env) (world fresh) = (Inl e1, w1) \<and>
         error_message e1 = Inr m \<and>
         installBrowser example_env ''firefox'' w1 = (Inr (), w2) \<and>
         getBrowserExecutablePath example_env ''firefox'' (browsersPath example_env) w2 = (r, w3) \<longrightarrow>
         resolve_executablePath example_env ''firefox'' launch_credentials fresh =
           (r, fresh\<lparr>world := w3,
              trace := trace fresh @ [GetBrowserExecutablePath ''firefox'' (browsersPath example_env) (Inl e1),
                                  InstallBrowser ''firefox'' (Inr ()),
                                  GetBrowserExecutablePath ''firefox'' (browsersPath example_env) r]\<rparr>)"
    by blast
  with h1 h2 h3 h4 have "resolve_executablePath example_env ''firefox'' launch_credentials fresh =
     (Inr ''/opt/node/browsers/firefox'',
      fresh\<lparr>world := 1,
        trace := trace fresh @
          [GetBrowserExecutablePath ''firefox'' (browsersPath example_env)
             (Inl (Error ''Browser executable not found'')),
           InstallBrowser ''firefox'' (Inr ()),
           GetBrowserExecutablePath ''firefox'' (browsersPath example_env)
             (Inr ''/opt/node/browsers/firefox'')]\<rparr>)"
    by blast
  with h0 h1 h2 h3 show ?thesis by (intro conjI)
qed

section \<open>Navigation and dispatch\<close>



section \<open>How many items an input item contributes\<close>

lemma mixed_loop_body_0:
  "loop_body mixed_env 0 fresh =
     (Inr (), \<lparr>world = 0, trace = first_log, returnData = [page_item]\<rparr>)"
  by (simp add: body_defs flow_defs mixed_env_def example_env_def fresh_def first_log_def
      path_credentials_def)

lemma mixed_read_1:
  "read_parameters mixed_env 1 = Inr (''runCustomScript'', ''firefox'', example_options)"
  by (simp add: read_parameters_def mixed_env_def example_env_def example_options_def)

lemma mixed_try_block_1:
  "try_block mixed_env 1 ''runCustomScript'' ''firefox'' example_options
     \<lparr>world = 0, trace = first_log, returnData = [page_item]\<rparr> =
     (Inr (), \<lparr>world = 0, trace = first_log @ two_items_log,
               returnData = [page_item, title_item, links_item]\<rparr>)"
  by (simp add: body_defs flow_defs mixed_env_def example_env_def example_options_def
      two_items_log_def path_credentials_def)

lemma mixed_read_2:
  "read_parameters mixed_env 2 = Inr (''navigate'', ''firefox'', example_options)"
  by (simp add: read_parameters_def mixed_env_def example_env_def example_options_def)

lemma mixed_try_block_2:
  "try_block mixed_env 2 ''navigate'' ''firefox'' example_options
     \<lparr>world = 0, trace = first_log @ two_items_log,
      returnData = [page_item, title_item, links_item]\<rparr> =
     (Inr (), \<lparr>world = 0, trace = first_log @ two_items_log @ third_log,
               returnData = [page_item, title_item, links_item, page_item]\<rparr>)"
  by (simp add: body_defs flow_defs mixed_env_def example_env_def example_options_def
      third_log_def path_credentials_def)

lemma mixed_loop_body_1:
  "loop_body mixed_env 1 \<lparr>world = 0, trace = first_log, returnData = [page_item]\<rparr> =
     (Inr (), \<lparr>world = 0, trace = first_log @ two_items_log,
               returnData = [page_item, title_item, links_item]\<rparr>)"
  using mixed_read_1 mixed_try_block_1
  by (simp add: loop_body_def bind_def getNodeParameter_def try_catch_def)

lemma mixed_loop_body_2:
  "loop_body mixed_env 2
     \<lparr>world = 0, trace = first_log @ two_items_log,
      returnData = [page_item, title_item, links_item]\<rparr> =
     (Inr (), \<lparr>world = 0, trace = first_log @ two_items_log @ third_log,
               returnData = [page_item, title_item, links_item, page_item]\<rparr>)"
  using mixed_read_2 mixed_try_block_2
  by (simp add: loop_body_def bind_def getNodeParameter_def try_catch_def)

lemma mixed_before_1:
  "execute_loop mixed_env 1 0 \<lparr>world = 0, trace = [], returnData = []\<rparr> =
     (Inr (), \<lparr>world = 0, trace = first_log, returnData = [page_item]\<rparr>)"
proof -
  have "execute_loop mixed_env 1 0 fresh =
      execute_loop mixed_env 1 (Suc 0) \<lparr>world = 0, trace = first_log, returnData = [page_item]\<rparr>"
    by (rule execute_loop_step [OF _ mixed_loop_body_0]) simp
  then show ?thesis by (simp add: execute_loop_done fresh_def)
qed

lemma mixed_before_2:
  "execute_loop mixed_env 2 0 \<lparr>world = 0, trace = [], returnData = []\<rparr> =
     (Inr (), \<lparr>world = 0, trace = first_log @ two_items_log,
               returnData = [page_item, title_item, links_item]\<rparr>)"
proof -
  have "execute_loop mixed_env 2 0 fresh =
      execute_loop mixed_env 2 (Suc 0) \<lparr>world = 0, trace = first_log, returnData = [page_item]\<rparr>"
    by (rule execute_loop_step [OF _ mixed_loop_body_0]) simp
  also have "\<dots> = execute_loop mixed_env 2 (Suc (Suc 0))
      \<lparr>world = 0, trace = first_log @ two_items_log,
       returnData = [page_item, title_item, links_item]\<rparr>"
    using mixed_loop_body_1 by (intro execute_loop_step) simp_all
  finally show ?thesis by (simp add: execute_loop_done fresh_def numeral_2_eq_2)
qed

lemma mixed_execute:
  "execute mixed_env 0 =
     (Inr [[page_item, title_item, links_item, page_item]],
      \<lparr>world = 0, trace = first_log @ two_items_log @ third_log,
       returnData = [page_item, title_item, links_item, page_item]\<rparr>)"
proof -
  have n: "length (getInputData mixed_env) = 3"
    by (simp add: mixed_env_def example_env_def)
  have "execute_loop mixed_env 3 0 \<lparr>world = 0, trace = [], returnData = []\<rparr> =
      execute_loop mixed_env 3 2
        \<lparr>world = 0, trace = first_log @ two_items_log,
         returnData = [page_item, title_item, links_item]\<rparr>"
    using mixed_before_2 by (intro execute_loop_split) simp_all
  also have "\<dots> = execute_loop mixed_env 3 (Suc 2)
      \<lparr>world = 0, trace = first_log @ two_items_log @ third_log,
       returnData = [page_item, title_item, links_item, page_item]\<rparr>"
    using mixed_loop_body_2 by (intro execute_loop_step) simp_all
  finally show ?thesis
    by (simp add: execute_def n execute_loop_done)
qed

text \<open>
  C5. When the \<^verbatim>\<open>try\<close> block of item \<open>i\<close> ends without an error, it appends to
  \<^verbatim>\<open>returnData\<close>, after everything the earlier items left there: exactly one item, the one
  the operation dispatcher returned for this item, if the operation is not
  \<^verbatim>\<open>runCustomScript\<close>; exactly the items the script runner returned for this item, as many
  as they are, none when it returned none, if it is. The loop goes on with item \<open>i + 1\<close>,
  and whatever the rest of the loop does, it only appends after them. In the sequence that
  \<^verbatim>\<open>execute\<close> returns, these items stand right after the outputs of items \<open>0\<close> to \<open>i - 1\<close>
  and before the outputs of the later items.
\<close>

theorem output_items_per_input_item:
  assumes "read_parameters env i = Inr (operation, bt, bo)"
    and "try_block env i operation bt bo s = (Inr (), s')"
  shows "\<exists>out. returnData s' = returnData s @ out
       \<and> (if operation = ''runCustomScript''
          then (\<exists>b p. RunCustomScript i b p (Inr out) \<in> set (new_events s s'))
          else (\<exists>p x. out = [x] \<and>
                  HandleOperation operation p i (Inr x) \<in> set (new_events s s')))
       \<and> loop_body env i s = (Inr (), s')
       \<and> (\<forall>n. i < n \<longrightarrow>
            execute_loop env n i s = execute_loop env n (Suc i) s' \<and>
            (\<forall>r s''. execute_loop env n i s = (r, s'') \<longrightarrow>
               prefix (returnData s') (returnData s'')))
       \<and> (\<forall>w outs s_end.
            execute_loop env i 0 \<lparr>world = w, trace = [], returnData = []\<rparr> = (Inr (), s) \<and>
            i < length (getInputData env) \<and> execute env w = (Inr outs, s_end) \<longrightarrow>
            (\<exists>rest. outs = [returnData s @ out @ rest]))"
  using assms(2)
proof (cases rule: try_blockE)
  case (acquired creds w1 b s2 pre ev)
  from run_operation_success [OF acquired(7)] obtain cx p mid out where
    tr: "trace s' = trace s2 @ [NewContext b (Inr cx), NewPage cx (Inr p)] @ mid @
             [Close b (Inr ()), Push out]"
    and rd: "returnData s' = returnData s2 @ out"
    and mid: "if operation = ''runCustomScript'' then mid = [RunCustomScript i b p (Inr out)]
            else (\<exists>u x. getNodeParameter_url env i = Inr u \<and>
                    mid = [Goto p u (Inr ()), HandleOperation operation p i (Inr x)] \<and>
                    out = [x])"
    by blast
  have ne: "new_events s s' = GetCredentials (Inr creds) # pre @ [ev] @
      [NewContext b (Inr cx), NewPage cx (Inr p)] @ mid @ [Close b (Inr ()), Push out]"
    using tr acquired(3) by (intro new_events_append) simp
  have rd': "returnData s' = returnData s @ out"
    using rd acquired(4) by simp
  have lb: "loop_body env i s = (Inr (), s')"
    using assms by (simp add: loop_body_def bind_def getNodeParameter_def try_catch_def)
  have loop: "\<forall>n. i < n \<longrightarrow>
            execute_loop env n i s = execute_loop env n (Suc i) s' \<and>
            (\<forall>r s''. execute_loop env n i s = (r, s'') \<longrightarrow>
               prefix (returnData s') (returnData s''))"
  proof (intro allI impI conjI)
    fix n assume "i < n"
    then show step: "execute_loop env n i s = execute_loop env n (Suc i) s'"
      using lb by (rule execute_loop_step)
    fix r s'' assume "execute_loop env n i s = (r, s'')"
    with step have "execute_loop env n (Suc i) s' = (r, s'')" by simp
    then show "prefix (returnData s') (returnData s'')" by (rule execute_loop_returnData)
  qed
  have returned: "\<forall>w outs s_end.
            execute_loop env i 0 \<lparr>world = w, trace = [], returnData = []\<rparr> = (Inr (), s) \<and>
            i < length (getInputData env) \<and> execute env w = (Inr outs, s_end) \<longrightarrow>
            (\<exists>rest. outs = [returnData s @ out @ rest])"
  proof (intro allI impI, elim conjE)
    fix w outs s_end
    assume "execute_loop env i 0 \<lparr>world = w, trace = [], returnData = []\<rparr> = (Inr (), s)"
      and "i < length (getInputData env)" and "execute env w = (Inr outs, s_end)"
    from execute_output_after [OF this(1,2) lb this(3)]
    show "\<exists>rest. outs = [returnData s @ out @ rest]" by (simp add: rd')
  qed
  have items: "if operation = ''runCustomScript''
          then (\<exists>b p. RunCustomScript i b p (Inr out) \<in> set (new_events s s'))
          else (\<exists>p x. out = [x] \<and>
                  HandleOperation operation p i (Inr x) \<in> set (new_events s s'))"
  proof (cases "operation = ''runCustomScript''")
    case True
    with mid show ?thesis unfolding ne by auto
  next
    case False
    with mid show ?thesis unfolding ne by auto
  qed
  from rd' items lb loop returned
  have "returnData s' = returnData s @ out
       \<and> (if operation = ''runCustomScript''
          then (\<exists>b p. RunCustomScript i b p (Inr out) \<in> set (new_events s s'))
          else (\<exists>p x. out = [x] \<and>
                  HandleOperation operation p i (Inr x) \<in> set (new_events s s')))
       \<and> loop_body env i s = (Inr (), s')
       \<and> (\<forall>n. i < n \<longrightarrow>
            execute_loop env n i s = execute_loop env n (Suc i) s' \<and>
            (\<forall>r s''. execute_loop env n i s = (r, s'') \<longrightarrow>
               prefix (returnData s') (returnData s'')))
       \<and> (\<forall>w outs s_end.
            execute_loop env i 0 \<lparr>world = w, trace = [], returnData = []\<rparr> = (Inr (), s) \<and>
            i < length (getInputData env) \<and> execute env w = (Inr outs, s_end) \<longrightarrow>
            (\<exists>rest. outs = [returnData s @ out @ rest]))"
    by (intro conjI)
  then show ?thesis by (rule exI)
qed simp_all

theorem output_items_per_input_item_witness:
  "read_parameters mixed_env 1 = Inr (''runCustomScript'', ''firefox'', example_options)
 \<and> try_block mixed_env 1 ''runCustomScript'' ''firefox'' example_options
     \<lparr>world = 0, trace = first_log, returnData = [page_item]\<rparr> =
     (Inr (), \<lparr>world = 0, trace = first_log @ two_items_log,
               returnData = [page_item, title_item, links_item]\<rparr>)
 \<and> read_parameters mixed_env 2 = Inr (''navigate'', ''firefox'', example_options)
 \<and> try_block mixed_env 2 ''navigate'' ''firefox'' example_options
     \<lparr>world = 0, trace = first_log @ two_items_log,
      returnData = [page_item, title_item, links_item]\<rparr> =
     (Inr (), \<lparr>world = 0, trace = first_log @ two_items_log @ third_log,
               returnData = [page_item, title_item, links_item, page_item]\<rparr>)
 \<and> execute mixed_env 0 =
     (Inr [[page_item, title_item, links_item, page_item]],
      \<lparr>world = 0, trace = first_log @ two_items_log @ third_log,
       returnData = [page_item, title_item, links_item, page_item]\<rparr>)
 \<and> (\<exists>b p. RunCustomScript 1 b p (Inr [title_item, links_item]) \<in> set two_items_log)
 \<and> (\<exists>rest. [[page_item, title_item, links_item, page_item]] =
       [[page_item] @ [title_item, links_item] @ rest])
 \<and> (\<exists>p. HandleOperation ''navigate'' p 2 (Inr page_item) \<in> set third_log)
 \<and> (\<exists>rest. [[page_item, title_item, links_item, page_item]] =
       [[page_item, title_item, links_item] @ [page_item] @ rest])"
proof -
  have lt1: "(1::nat) < length (getInputData mixed_env)"
    and lt2: "(2::nat) < length (getInputData mixed_env)"
    by (simp_all add: mixed_env_def example_env_def)
  have ne1: "new_events \<lparr>world = 0::nat, trace = first_log, returnData = [page_item]\<rparr>
      \<lparr>world = 0, trace = first_log @ two_items_log,
       returnData = [page_item, title_item, links_item]\<rparr> = two_items_log"
    by (simp add: new_events_def)
  have ne2: "new_events
      \<lparr>world = 0::nat, trace = first_log @ two_items_log,
       returnData = [page_item, title_item, links_item]\<rparr>
      \<lparr>world = 0, trace = first_log @ two_items_log @ third_log,
       returnData = [page_item, title_item, links_item, page_item]\<rparr> = third_log"
    by (simp add: new_events_def)
  from output_items_per_input_item [OF mixed_read_1 mixed_try_block_1, unfolded ne1]
  obtain out1 where
    a1: "returnData \<lparr>world = 0::nat, trace = first_log @ two_items_log,
           returnData = [page_item, title_item, links_item]\<rparr> =
         returnData \<lparr>world = 0::nat, trace = first_log, returnData = [page_item]\<rparr> @ out1"
    and a2: "if ''runCustomScript'' = ''runCustomScript''
          then (\<exists>b p. RunCustomScript 1 b p (Inr out1) \<in> set two_items_log)
          else (\<exists>p x. out1 = [x] \<and>
                  HandleOperation ''runCustomScript'' p 1 (Inr x) \<in> set two_items_log)"
    and a3: "\<forall>w outs s_end.
            execute_loop mixed_env 1 0 \<lparr>world = w, trace = [], returnData = []\<rparr> =
              (Inr (), \<lparr>world = 0, trace = first_log, returnData = [page_item]\<rparr>) \<and>
            1 < length (getInputData mixed_env) \<and> execute mixed_env w = (Inr outs, s_end) \<longrightarrow>
            (\<exists>rest. outs =
               [returnData \<lparr>world = 0::nat, trace = first_log, returnData = [page_item]\<rparr> @
                out1 @ rest])"
    by (elim exE conjE) (rule that)
  from a1 have o1: "out1 = [title_item, links_item]" by simp
  from a2 o1 have s1: "\<exists>b p. RunCustomScript 1 b p (Inr [title_item, links_item]) \<in> set two_items_log"
    by simp
  from a3 mixed_before_1 lt1 mixed_execute o1
  have r1: "\<exists>rest. [[page_item, title_item, links_item, page_item]] =
       [[page_item] @ [title_item, links_item] @ rest]"
    by fastforce
  from output_items_per_input_item [OF mixed_read_2 mixed_try_block_2, unfolded ne2]
  obtain out2 where
    b1: "returnData \<lparr>world = 0::nat, trace = first_log @ two_items_log @ third_log,
           returnData = [page_item, title_item, links_item, page_item]\<rparr> =
         returnData \<lparr>world = 0::nat, trace = first_log @ two_items_log,
           returnData = [page_item, title_item, links_item]\<rparr> @ out2"
    and b2: "if ''navigate'' = ''runCustomScript''
          then (\<exists>b p. RunCustomScript 2 b p (Inr out2) \<in> set third_log)
          else (\<exists>p x. out2 = [x] \<and>
                  HandleOperation ''navigate'' p 2 (Inr x) \<in> set third_log)"
    and b3: "\<forall>w outs s_end.
            execute_loop mixed_env 2 0 \<lparr>world = w, trace = [], returnData = []\<rparr> =
              (Inr (), \<lparr>world = 0, trace = first_log @ two_items_log,
                 returnData = [page_item, title_item, links_item]\<rparr>) \<and>
            2 < length (getInputData mixed_env) \<and> execute mixed_env w = (Inr outs, s_end) \<longrightarrow>
            (\<exists>rest. outs =
               [returnData \<lparr>world = 0::nat, trace = first_log @ two_items_log,
                  returnData = [page_item, title_item, links_item]\<rparr> @ out2 @ rest])"
    by (elim exE conjE) (rule that)
  from b1 have o2: "out2 = [page_item]" by simp
  from b2 o2 have s2: "\<exists>p. HandleOperation ''navigate'' p 2 (Inr page_item) \<in> set third_log"
    by simp
  from b3 mixed_before_2 lt2 mixed_execute o2
  have r2: "\<exists>rest. [[page_item, title_item, links_item, page_item]] =
       [[page_item, title_item, links_item] @ [page_item] @ rest]"
    by fastforce
  from mixed_read_1 mixed_try_block_1 mixed_read_2 mixed_try_block_2 mixed_execute s1 r1 s2 r2
  show ?thesis by (intro conjI)
qed

section \<open>Close before push\<close>

text \<open>
  C8. The log of an item whose \<^verbatim>\<open>try\<close> block ends without an error is: acquisition events,
  the last of which is this item's own launch or attachment and returns the browser handle
  \<open>b\<close>; a new context on \<open>b\<close>; a new page on that context; the operation on that page (the
  script runner, or goto and the dispatcher); \<^verbatim>\<open>close\<close> on \<open>b\<close>; and only then the push of
  the item's output onto \<^verbatim>\<open>returnData\<close>. The turn of the loop ends there, and the next item
  starts from that state: the handles are local to the turn.
\<close>

theorem browser_closed_before_push:
  assumes "read_parameters env i = Inr (operation, bt, bo)"
    and "try_block env i operation bt bo s = (Inr (), s')"
  shows "\<exists>acq ev b cx p mid out.
           new_events s s' = acq @ [ev, NewContext b (Inr cx), NewPage cx (Inr p)] @ mid @
             [Close b (Inr ()), Push out]
         \<and> list_all acquisition_event acq
         \<and> ((\<exists>opts. ev = Launch bt opts (Inr b)) \<or> (\<exists>u m. ev = ConnectOverCDP u m (Inr b)))
         \<and> (if operation = ''runCustomScript'' then mid = [RunCustomScript i b p (Inr out)]
            else (\<exists>u x. mid = [Goto p u (Inr ()), HandleOperation operation p i (Inr x)] \<and>
                    out = [x]))
         \<and> returnData s' = returnData s @ out
         \<and> loop_body env i s = (Inr (), s')
         \<and> (\<forall>n. i < n \<longrightarrow> execute_loop env n i s = execute_loop env n (Suc i) s')"
  using assms(2)
proof (cases rule: try_blockE)
  case (acquired creds w1 b s2 pre ev)
  from run_operation_success [OF acquired(7)] obtain cx p mid out where
    tr: "trace s' = trace s2 @ [NewContext b (Inr cx), NewPage cx (Inr p)] @ mid @
             [Close b (Inr ()), Push out]"
    and rd: "returnData s' = returnData s2 @ out"
    and mid: "if operation = ''runCustomScript'' then mid = [RunCustomScript i b p (Inr out)]
            else (\<exists>u x. getNodeParameter_url env i = Inr u \<and>
                    mid = [Goto p u (Inr ()), HandleOperation operation p i (Inr x)] \<and>
                    out = [x])"
    by blast
  have ne: "new_events s s' = (GetCredentials (Inr creds) # pre) @
      [ev, NewContext b (Inr cx), NewPage cx (Inr p)] @ mid @ [Close b (Inr ()), Push out]"
    using tr acquired(3) by (intro new_events_append) simp
  have lb: "loop_body env i s = (Inr (), s')"
    using assms by (simp add: loop_body_def bind_def getNodeParameter_def try_catch_def)
  have loop: "\<forall>n. i < n \<longrightarrow> execute_loop env n i s = execute_loop env n (Suc i) s'"
    using lb by (simp add: execute_loop_step)
  have acq: "list_all acquisition_event (GetCredentials (Inr creds) # pre)"
    using acquired(5) by (simp add: acquisition_log_iff)
  have mid': "if operation = ''runCustomScript'' then mid = [RunCustomScript i b p (Inr out)]
            else (\<exists>u x. mid = [Goto p u (Inr ()), HandleOperation operation p i (Inr x)] \<and>
                    out = [x])"
    using mid by (auto split: if_splits)
  have "new_events s s' = (GetCredentials (Inr creds) # pre) @
             [ev, NewContext b (Inr cx), NewPage cx (Inr p)] @ mid @ [Close b (Inr ()), Push out]
         \<and> list_all acquisition_event (GetCredentials (Inr creds) # pre)
         \<and> ((\<exists>opts. ev = Launch bt opts (Inr b)) \<or> (\<exists>u m. ev = ConnectOverCDP u m (Inr b)))
         \<and> (if operation = ''runCustomScript'' then mid = [RunCustomScript i b p (Inr out)]
            else (\<exists>u x. mid = [Goto p u (Inr ()), HandleOperation operation p i (Inr x)] \<and>
                    out = [x]))
         \<and> returnData s' = returnData s @ out
         \<and> loop_body env i s = (Inr (), s')
         \<and> (\<forall>n. i < n \<longrightarrow> execute_loop env n i s = execute_loop env n (Suc i) s')"
    using ne acq acquired(6) mid' rd acquired(4) lb loop by simp
  then show ?thesis by (intro exI)
qed simp_all

theorem browser_closed_before_push_witness:
  "read_parameters example_env 0 = Inr (''navigate'', ''firefox'', example_options)
 \<and> try_block example_env 0 ''navigate'' ''firefox'' example_options fresh =
     (Inr (), \<lparr>world = 1, trace = example_log, returnData = [page_item]\<rparr>)
 \<and> (\<exists>acq ev b cx p mid out.
       example_log = acq @ [ev, NewContext b (Inr cx), NewPage cx (Inr p)] @ mid @
         [Close b (Inr ()), Push out]
     \<and> list_all acquisition_event acq
     \<and> ((\<exists>opts. ev = Launch ''firefox'' opts (Inr b)) \<or> (\<exists>u m. ev = ConnectOverCDP u m (Inr b)))
     \<and> (\<exists>u x. mid = [Goto p u (Inr ()), HandleOperation ''navigate'' p 0 (Inr x)] \<and> out = [x])
     \<and> [page_item] = returnData fresh @ out)"
proof -
  from browser_closed_before_push [OF example_read example_try_block, unfolded example_new_events]
  obtain acq ev b cx p mid out where
    a1: "example_log = acq @ [ev, NewContext b (Inr cx), NewPage cx (Inr p)] @ mid @
         [Close b (Inr ()), Push out]"
    and a2: "list_all acquisition_event acq"
    and a3: "(\<exists>opts. ev = Launch ''firefox'' opts (Inr b)) \<or> (\<exists>u m. ev = ConnectOverCDP u m (Inr b))"
    and a4: "if ''navigate'' = ''runCustomScript'' then mid = [RunCustomScript 0 b p (Inr out)]
            else (\<exists>u x. mid = [Goto p u (Inr ()), HandleOperation ''navigate'' p 0 (Inr x)] \<and>
                    out = [x])"
    and a5: "returnData \<lparr>world = 1::nat, trace = example_log, returnData = [page_item]\<rparr> =
            returnData fresh @ out"
    by (elim exE conjE) (rule that)
  from a4 have b4: "\<exists>u x. mid = [Goto p u (Inr ()), HandleOperation ''navigate'' p 0 (Inr x)] \<and> out = [x]"
    by simp
  from a5 have b5: "[page_item] = returnData fresh @ out" by simp
  from a1 a2 a3 b4 b5 have "example_log = acq @ [ev, NewContext b (Inr cx), NewPage cx (Inr p)] @ mid @
         [Close b (Inr ()), Push out]
     \<and> list_all acquisition_event acq
     \<and> ((\<exists>opts. ev = Launch ''firefox'' opts (Inr b)) \<or> (\<exists>u m. ev = ConnectOverCDP u m (Inr b)))
     \<and> (\<exists>u x. mid = [Goto p u (Inr ()), HandleOperation ''navigate'' p 0 (Inr x)] \<and> out = [x])
     \<and> [page_item] = returnData fresh @ out"
    by (intro conjI)
  then have "\<exists>acq ev b cx p mid out.
       example_log = acq @ [ev, NewContext b (Inr cx), NewPage cx (Inr p)] @ mid @
         [Close b (Inr ()), Push out]
     \<and> list_all acquisition_event acq
     \<and> ((\<exists>opts. ev = Launch ''firefox'' opts (Inr b)) \<or> (\<exists>u m. ev = ConnectOverCDP u m (Inr b)))
     \<and> (\<exists>u x. mid = [Goto p u (Inr ()), HandleOperation ''navigate'' p 0 (Inr x)] \<and> out = [x])
     \<and> [page_item] = returnData fresh @ out"
    by (intro exI)
  with example_read example_try_block show ?thesis by (intro conjI)
qed

section \<open>Launch and connect options\<close>

text \<open>
  C7. In the turn of the loop for item \<open>i\<close>, every launch is a launch of the item's browser
  kind with \<^verbatim>\<open>headless\<close> true unless the item's \<^verbatim>\<open>headless\<close> option is \<^verbatim>\<open>false\<close> (absent
  counts as true) and with \<^verbatim>\<open>slowMo\<close> equal to the item's \<^verbatim>\<open>slowMo\<close> option, 0 when the option
  is absent; every attachment over CDP gets the same \<^verbatim>\<open>slowMo\<close>. In launch mode, once the
  executable path \<open>p\<close> is resolved, acquisition is that launch with path \<open>p\<close>; in connect
  mode with Chromium, acquisition is that attachment to the credential's endpoint.
\<close>

theorem launch_and_connect_options:
  assumes "read_parameters env i = Inr (operation, bt, bo)" and "loop_body env i s = (r, s')"
  shows "(\<forall>bt' opts r'. Launch bt' opts r' \<in> set (new_events s s') \<longrightarrow>
            bt' = bt \<and> opt_headless opts = (headless bo \<noteq> Some False) \<and>
            opt_slowMo opts = (case slowMo bo of None \<Rightarrow> 0 | Some n \<Rightarrow> n))
       \<and> (\<forall>u m r'. ConnectOverCDP u m r' \<in> set (new_events s s') \<longrightarrow>
            m = (case slowMo bo of None \<Rightarrow> 0 | Some n \<Rightarrow> n))
       \<and> (\<forall>creds s1 p s2. connectionType creds \<noteq> Some ''connect'' \<and>
            resolve_executablePath env bt creds s1 = (Inr p, s2) \<longrightarrow>
            acquire_browser env bt bo creds s1 =
              call (Launch bt (LaunchOptions (headless bo \<noteq> Some False)
                      (case slowMo bo of None \<Rightarrow> 0 | Some n \<Rightarrow> n) p))
                (launch env bt (LaunchOptions (headless bo \<noteq> Some False)
                      (case slowMo bo of None \<Rightarrow> 0 | Some n \<Rightarrow> n) p)) s2)
       \<and> (\<forall>creds s1. connectionType creds = Some ''connect'' \<and> bt = ''chromium'' \<longrightarrow>
            acquire_browser env bt bo creds s1 =
              call (ConnectOverCDP (endpointUrl creds) (case slowMo bo of None \<Rightarrow> 0 | Some n \<Rightarrow> n))
                (connectOverCDP env (endpointUrl creds)
                   (case slowMo bo of None \<Rightarrow> 0 | Some n \<Rightarrow> n)) s1)"
proof -
  from assms(2,1) obtain acq run post creds where
    tr: "trace s' = trace s @ acq @ run @ post"
    and acq: "acquisition_log bt bo creds acq"
    and run: "list_all (\<lambda>ev. \<not> acquisition_event ev) run"
    and post: "post = [] \<or> (\<exists>e. post = [Push [error_item e bt (platform env)]])"
    by (rule loop_body_log)
  have ne: "new_events s s' = acq @ run @ post"
    using tr by (rule new_events_append)
  have mem: "ev \<in> set acq" if "ev \<in> set (acq @ run @ post)" "acquisition_event ev" for ev
    using that not_acquisition_events [OF run, of ev] post by auto
  have launches: "\<forall>bt' opts r'. Launch bt' opts r' \<in> set (new_events s s') \<longrightarrow>
            bt' = bt \<and> opt_headless opts = (headless bo \<noteq> Some False) \<and>
            opt_slowMo opts = (case slowMo bo of None \<Rightarrow> 0 | Some n \<Rightarrow> n)"
  proof (intro allI impI)
    fix bt' opts r' assume "Launch bt' opts r' \<in> set (new_events s s')"
    then have "Launch bt' opts r' \<in> set acq" unfolding ne by (intro mem) simp_all
    with acq show "bt' = bt \<and> opt_headless opts = (headless bo \<noteq> Some False) \<and>
            opt_slowMo opts = (case slowMo bo of None \<Rightarrow> 0 | Some n \<Rightarrow> n)"
      unfolding acquisition_log_iff slowMo_or_0_eq by blast
  qed
  have attachments: "\<forall>u m r'. ConnectOverCDP u m r' \<in> set (new_events s s') \<longrightarrow>
            m = (case slowMo bo of None \<Rightarrow> 0 | Some n \<Rightarrow> n)"
  proof (intro allI impI)
    fix u m r' assume "ConnectOverCDP u m r' \<in> set (new_events s s')"
    then have "ConnectOverCDP u m r' \<in> set acq" unfolding ne by (intro mem) simp_all
    with acq show "m = (case slowMo bo of None \<Rightarrow> 0 | Some n \<Rightarrow> n)"
      unfolding acquisition_log_iff slowMo_or_0_eq by blast
  qed
  have launch_mode: "\<forall>creds s1 p s2. connectionType creds \<noteq> Some ''connect'' \<and>
            resolve_executablePath env bt creds s1 = (Inr p, s2) \<longrightarrow>
            acquire_browser env bt bo creds s1 =
              call (Launch bt (LaunchOptions (headless bo \<noteq> Some False)
                      (case slowMo bo of None \<Rightarrow> 0 | Some n \<Rightarrow> n) p))
                (launch env bt (LaunchOptions (headless bo \<noteq> Some False)
                      (case slowMo bo of None \<Rightarrow> 0 | Some n \<Rightarrow> n) p)) s2"
    by (simp add: acquire_browser_def bind_def slowMo_or_0_eq)
  have connect_mode: "\<forall>creds s1. connectionType creds = Some ''connect'' \<and> bt = ''chromium'' \<longrightarrow>
            acquire_browser env bt bo creds s1 =
              call (ConnectOverCDP (endpointUrl creds) (case slowMo bo of None \<Rightarrow> 0 | Some n \<Rightarrow> n))
                (connectOverCDP env (endpointUrl creds)
                   (case slowMo bo of None \<Rightarrow> 0 | Some n \<Rightarrow> n)) s1"
    by (simp add: acquire_browser_def slowMo_or_0_eq)
  from launches attachments launch_mode connect_mode show ?thesis by (intro conjI)
qed

theorem launch_and_connect_options_witness:
  "read_parameters example_env 0 = Inr (''navigate'', ''firefox'', example_options)
 \<and> loop_body example_env 0 fresh =
     (Inr (), \<lparr>world = 1, trace = example_log, returnData = [page_item]\<rparr>)
 \<and> Launch ''firefox'' (LaunchOptions True 50 ''/opt/node/browsers/firefox'') (Inr (Browser 1))
       \<in> set example_log
 \<and> headless example_options = None \<and> slowMo example_options = Some 50
 \<and> opt_headless (LaunchOptions True 50 ''/opt/node/browsers/firefox'') =
       (headless example_options \<noteq> Some False)
 \<and> opt_slowMo (LaunchOptions True 50 ''/opt/node/browsers/firefox'') =
       (case slowMo example_options of None \<Rightarrow> 0 | Some n \<Rightarrow> n)"
proof -
  have m: "Launch ''firefox'' (LaunchOptions True 50 ''/opt/node/browsers/firefox'')
      (Inr (Browser 1)) \<in> set example_log"
    by (simp add: example_log_def)
  have o: "headless example_options = None" "slowMo example_options = Some 50"
    by (simp_all add: example_options_def)
  from launch_and_connect_options [OF example_read example_loop_body, unfolded example_new_events] m
  have "opt_headless (LaunchOptions True 50 ''/opt/node/browsers/firefox'') =
       (headless example_options \<noteq> Some False)
 \<and> opt_slowMo (LaunchOptions True 50 ''/opt/node/browsers/firefox'') =
       (case slowMo example_options of None \<Rightarrow> 0 | Some n \<Rightarrow> n)"
    by blast
  with example_read example_loop_body m o show ?thesis by (intro conjI) blast+
qed

section \<open>Everything but \<^verbatim>\<open>connect\<close> launches\<close>

lemma resolve_executablePath_endpointUrl:
  "resolve_executablePath env bt (creds\<lparr>endpointUrl := u\<rparr>) = resolve_executablePath env bt creds"
  by (simp add: resolve_executablePath_def)

text \<open>
  C9. When the credential's \<^verbatim>\<open>connectionType\<close> is anything but the string \<^verbatim>\<open>connect\<close>
  (\<^verbatim>\<open>launch\<close>, empty, unrecognised or absent), browser acquisition is the launch branch:
  executable path resolution followed by the launch. Its result and its log do not depend
  on the credential's \<^verbatim>\<open>endpointUrl\<close>, which that branch does not read, and no attachment
  over CDP is logged, in the acquisition and in the whole turn of the loop.
\<close>

theorem non_connect_is_launch:
  assumes "connectionType creds \<noteq> Some ''connect''"
  shows "acquire_browser env bt bo (creds\<lparr>endpointUrl := u\<rparr>) s = acquire_browser env bt bo creds s
       \<and> acquire_browser env bt bo creds s =
           bind (resolve_executablePath env bt creds) (\<lambda>path.
             call (Launch bt (LaunchOptions (headless bo \<noteq> Some False) (slowMo_or_0 bo) path))
               (launch env bt (LaunchOptions (headless bo \<noteq> Some False) (slowMo_or_0 bo) path))) s
       \<and> (\<forall>r s'. acquire_browser env bt bo creds s = (r, s') \<longrightarrow>
            (\<forall>v m r'. ConnectOverCDP v m r' \<notin> set (new_events s s')))
       \<and> (\<forall>i operation w1 r s'. read_parameters env i = Inr (operation, bt, bo) \<and>
            getCredentials env (world s) = (Inr creds, w1) \<and> loop_body env i s = (r, s') \<longrightarrow>
            (\<forall>v m r'. ConnectOverCDP v m r' \<notin> set (new_events s s')))"
proof -
  have independent: "acquire_browser env bt bo (creds\<lparr>endpointUrl := u\<rparr>) s =
      acquire_browser env bt bo creds s"
    using assms by (simp add: acquire_browser_def resolve_executablePath_endpointUrl)
  have branch: "acquire_browser env bt bo creds s =
           bind (resolve_executablePath env bt creds) (\<lambda>path.
             call (Launch bt (LaunchOptions (headless bo \<noteq> Some False) (slowMo_or_0 bo) path))
               (launch env bt (LaunchOptions (headless bo \<noteq> Some False) (slowMo_or_0 bo) path))) s"
    using assms by (simp add: acquire_browser_def)
  have acquisition: "\<forall>r s'. acquire_browser env bt bo creds s = (r, s') \<longrightarrow>
            (\<forall>v m r'. ConnectOverCDP v m r' \<notin> set (new_events s s'))"
  proof (intro allI impI)
    fix r s' v m r' assume "acquire_browser env bt bo creds s = (r, s')"
    then obtain evs where "trace s' = trace s @ evs" "acquisition_log bt bo creds evs"
      by (rule acquire_browser_events)
    with assms show "ConnectOverCDP v m r' \<notin> set (new_events s s')"
      by (auto simp: new_events_append acquisition_log_iff)
  qed
  have turn: "\<forall>i operation w1 r s'. read_parameters env i = Inr (operation, bt, bo) \<and>
            getCredentials env (world s) = (Inr creds, w1) \<and> loop_body env i s = (r, s') \<longrightarrow>
            (\<forall>v m r'. ConnectOverCDP v m r' \<notin> set (new_events s s'))"
  proof (intro allI impI, elim conjE)
    fix i operation w1 r s' v m r'
    assume rp: "read_parameters env i = Inr (operation, bt, bo)"
      and gc: "getCredentials env (world s) = (Inr creds, w1)"
      and lb: "loop_body env i s = (r, s')"
    from lb rp obtain acq run post creds' where
      tr: "trace s' = trace s @ acq @ run @ post"
      and acq: "acquisition_log bt bo creds' acq"
      and cr: "\<forall>c w1. getCredentials env (world s) = (Inr c, w1) \<longrightarrow> c = creds'"
      and run: "list_all (\<lambda>ev. \<not> acquisition_event ev) run"
      and post: "post = [] \<or> (\<exists>e. post = [Push [error_item e bt (platform env)]])"
      by (rule loop_body_log)
    from cr gc have c: "creds' = creds" by simp
    have ne: "new_events s s' = acq @ run @ post"
      using tr by (rule new_events_append)
    show "ConnectOverCDP v m r' \<notin> set (new_events s s')"
    proof
      assume "ConnectOverCDP v m r' \<in> set (new_events s s')"
      then have "ConnectOverCDP v m r' \<in> set acq"
        unfolding ne using not_acquisition_events [OF run, of "ConnectOverCDP v m r'"] post by auto
      with acq c assms show False unfolding acquisition_log_iff by blast
    qed
  qed
  from independent branch acquisition turn show ?thesis by (intro conjI)
qed

theorem non_connect_is_launch_witness:
  "connectionType (path_credentials\<lparr>connectionType := Some ''Connect''\<rparr>) \<noteq> Some ''connect''
 \<and> acquire_browser example_env ''firefox'' example_options
      (path_credentials\<lparr>connectionType := Some ''Connect'', endpointUrl := Some ''ws://127.0.0.1:9222''\<rparr>)
      fresh =
    acquire_browser example_env ''firefox'' example_options
      (path_credentials\<lparr>connectionType := Some ''Connect''\<rparr>) fresh
 \<and> acquire_browser example_env ''firefox'' example_options
      (path_credentials\<lparr>connectionType := Some ''Connect''\<rparr>) fresh =
    (Inr (Browser 1),
     \<lparr>world = 0,
      trace = [Launch ''firefox'' (LaunchOptions True 50 ''/usr/bin/firefox'') (Inr (Browser 1))],
      returnData = []\<rparr>)"
proof -
  have h: "connectionType (path_credentials\<lparr>connectionType := Some ''Connect''\<rparr>) \<noteq> Some ''connect''"
    by simp
  have run: "bind (resolve_executablePath example_env ''firefox''
                (path_credentials\<lparr>connectionType := Some ''Connect''\<rparr>)) (\<lambda>path.
             call (Launch ''firefox'' (LaunchOptions (headless example_options \<noteq> Some False)
                     (slowMo_or_0 example_options) path))
               (launch example_env ''firefox'' (LaunchOptions (headless example_options \<noteq> Some False)
                     (slowMo_or_0 example_options) path))) fresh =
    (Inr (Browser 1),
     \<lparr>world = 0,
      trace = [Launch ''firefox'' (LaunchOptions True 50 ''/usr/bin/firefox'') (Inr (Browser 1))],
      returnData = []\<rparr>)"
    by (simp add: resolve_executablePath_def flow_defs path_credentials_def example_env_def
        example_options_def slowMo_or_0_def fresh_def)
  note inst = non_connect_is_launch [OF h, of example_env "''firefox''" example_options
      "Some ''ws://127.0.0.1:9222''" fresh]
  from inst have a: "acquire_browser example_env ''firefox'' example_options
      (path_credentials\<lparr>connectionType := Some ''Connect'', endpointUrl := Some ''ws://127.0.0.1:9222''\<rparr>)
      fresh =
    acquire_browser example_env ''firefox'' example_options
      (path_credentials\<lparr>connectionType := Some ''Connect''\<rparr>) fresh"
    by (rule conjunct1)
  from inst run have b: "acquire_browser example_env ''firefox'' example_options
      (path_credentials\<lparr>connectionType := Some ''Connect''\<rparr>) fresh =
    (Inr (Browser 1),
     \<lparr>world = 0,
      trace = [Launch ''firefox'' (LaunchOptions True 50 ''/usr/bin/firefox'') (Inr (Browser 1))],
      returnData = []\<rparr>)"
    by simp
  from h a b show ?thesis by (intro conjI)
qed

section \<open>Errors after the browser was acquired\<close>

lemma flaky_read_1:
  "read_parameters flaky_env 1 = Inr (''navigate'', ''firefox'', example_options)"
  by (simp add: read_parameters_def flaky_env_def example_env_def example_options_def)

lemma flaky_loop_body_0:
  "loop_body flaky_env 0 fresh =
     (Inr (), \<lparr>world = 0, trace = first_log, returnData = [page_item]\<rparr>)"
  by (simp add: body_defs flow_defs flaky_env_def example_env_def fresh_def first_log_def
      path_credentials_def)

lemma flaky_try_block_1:
  "try_block flaky_env 1 ''navigate'' ''firefox'' example_options
     \<lparr>world = 0, trace = first_log, returnData = [page_item]\<rparr> =
     (Inl (Error ''net::ERR_NAME_NOT_RESOLVED''),
      \<lparr>world = 0, trace = first_log @ unreachable_log, returnData = [page_item]\<rparr>)"
  by (simp add: body_defs flow_defs flaky_env_def example_env_def example_options_def
      unreachable_log_def path_credentials_def)

text \<open>
  C10. In the \<^verbatim>\<open>try\<close> block of an item, \<^verbatim>\<open>close\<close> is called only directly after the operation
  (the dispatcher or the script runner) has returned without error. So when the block
  raises an error \<open>e\<close>, the log holds a \<^verbatim>\<open>close\<close> only if that \<^verbatim>\<open>close\<close> itself is the call that
  raised \<open>e\<close>, as the last event: an error raised while opening the context or the page,
  navigating, dispatching or running the script leaves no \<^verbatim>\<open>close\<close> in the log. The catch
  block then only pushes the error item, rethrows, or throws itself when it cannot read
  the error's message: it does not close the browser either.
\<close>

theorem no_close_on_error:
  assumes "read_parameters env i = Inr (operation, bt, bo)"
    and "try_block env i operation bt bo s = (r1, s1)"
  shows "(\<forall>b rc. Close b rc \<in> set (new_events s s1) \<longrightarrow>
            (\<exists>p x. sublist [HandleOperation operation p i (Inr x), Close b rc] (new_events s s1)) \<or>
            (\<exists>p xs. sublist [RunCustomScript i b p (Inr xs), Close b rc] (new_events s s1)))
       \<and> (\<forall>e. r1 = Inl e \<longrightarrow>
            (\<forall>b rc. Close b rc \<in> set (new_events s s1) \<longrightarrow>
               rc = Inl e \<and> suffix [Close b (Inl e)] (new_events s s1))
          \<and> loop_body env i s =
              (if continueOnFail env then
                 (case error_message e of
                    Inl t \<Rightarrow> (Inl t, s1)
                  | Inr m \<Rightarrow>
                      (Inr (), s1\<lparr>trace := trace s1 @ [Push [error_item m bt (platform env)]],
                         returnData := returnData s1 @ [error_item m bt (platform env)]\<rparr>))
               else (Inl e, s1)))"
proof -
  from assms(2) obtain acq run creds where
    tr: "trace s1 = trace s @ acq @ run"
    and acq: "acquisition_log bt bo creds acq"
    and run: "run = [] \<or> (\<exists>b s2 pre ev. run_operation env i operation b s2 = (r1, s1) \<and>
           trace s1 = trace s2 @ run \<and> acq = pre @ [ev] \<and>
           ((\<exists>opts. ev = Launch bt opts (Inr b)) \<or> (\<exists>u m. ev = ConnectOverCDP u m (Inr b))))"
    by (rule try_block_log)
  have ne: "new_events s s1 = acq @ run"
    using tr by (rule new_events_append)
  have mem: "Close b rc \<in> set run" if "Close b rc \<in> set (acq @ run)" for b rc
    using that acquisition_log_events [OF acq, of "Close b rc"] by auto
  have cl: "((\<exists>p x. sublist [HandleOperation operation p i (Inr x), Close b rc] (acq @ run)) \<or>
            (\<exists>p xs. sublist [RunCustomScript i b p (Inr xs), Close b rc] (acq @ run))) \<and>
           (\<forall>e. r1 = Inl e \<longrightarrow> rc = Inl e \<and> suffix [Close b (Inl e)] (acq @ run))"
    if c: "Close b rc \<in> set (acq @ run)" for b rc
  proof -
    from mem [OF c] have cr: "Close b rc \<in> set run" .
    then have "run \<noteq> []" by auto
    with run obtain b0 s2 where ro: "run_operation env i operation b0 s2 = (r1, s1)"
      and t: "trace s1 = trace s2 @ run" by blast
    from run_operation_close [OF ro t] cr
    have b: "b = b0"
      and sub: "(\<exists>p x. sublist [HandleOperation operation p i (Inr x), Close b0 rc] run) \<or>
            (\<exists>p xs. sublist [RunCustomScript i b0 p (Inr xs), Close b0 rc] run)"
      and suf: "\<forall>e. r1 = Inl e \<longrightarrow> rc = Inl e \<and> suffix [Close b0 (Inl e)] run"
      by blast+
    from sub have "(\<exists>p x. sublist [HandleOperation operation p i (Inr x), Close b0 rc] (acq @ run @ [])) \<or>
            (\<exists>p xs. sublist [RunCustomScript i b0 p (Inr xs), Close b0 rc] (acq @ run @ []))"
      by (blast intro: sublist_embed)
    moreover from suf have "\<forall>e. r1 = Inl e \<longrightarrow> rc = Inl e \<and> suffix [Close b0 (Inl e)] (acq @ run)"
      by (blast intro: suffix_appendI)
    ultimately show ?thesis using b by simp
  qed
  have lb: "loop_body env i s =
              (if continueOnFail env then
                 (case error_message e of
                    Inl t \<Rightarrow> (Inl t, s1)
                  | Inr m \<Rightarrow>
                      (Inr (), s1\<lparr>trace := trace s1 @ [Push [error_item m bt (platform env)]],
                         returnData := returnData s1 @ [error_item m bt (platform env)]\<rparr>))
               else (Inl e, s1))" if "r1 = Inl e" for e
    using assms that
    by (simp add: loop_body_def bind_def getNodeParameter_def try_catch_def catch_block_def
        property_read_def push_def throw_def split: sum.splits)
  show ?thesis
    unfolding ne using cl lb by blast
qed

theorem no_close_on_error_witness:
  "read_parameters flaky_env 1 = Inr (''navigate'', ''firefox'', example_options)
 \<and> try_block flaky_env 1 ''navigate'' ''firefox'' example_options
     \<lparr>world = 0, trace = first_log, returnData = [page_item]\<rparr> =
     (Inl (Error ''net::ERR_NAME_NOT_RESOLVED''),
      \<lparr>world = 0, trace = first_log @ unreachable_log, returnData = [page_item]\<rparr>)
 \<and> (\<forall>b rc. Close b rc \<notin> set unreachable_log)
 \<and> loop_body flaky_env 1 \<lparr>world = 0, trace = first_log, returnData = [page_item]\<rparr> =
     (Inl (Error ''net::ERR_NAME_NOT_RESOLVED''),
      \<lparr>world = 0, trace = first_log @ unreachable_log, returnData = [page_item]\<rparr>)"
proof -
  have ne: "new_events \<lparr>world = 0::nat, trace = first_log, returnData = [page_item]\<rparr>
      \<lparr>world = 0, trace = first_log @ unreachable_log, returnData = [page_item]\<rparr> = unreachable_log"
    by (simp add: new_events_def)
  have c: "\<not> continueOnFail flaky_env"
    by (simp add: flaky_env_def example_env_def)
  have last: "\<not> suffix [Close b (Inl (Error ''net::ERR_NAME_NOT_RESOLVED''))] unreachable_log" for b
    by (simp add: unreachable_log_def suffix_Cons)
  note inst = no_close_on_error [OF flaky_read_1 flaky_try_block_1, unfolded ne]
  from inst last have no_close: "\<forall>b rc. Close b rc \<notin> set unreachable_log"
    by blast
  from inst c have lb: "loop_body flaky_env 1 \<lparr>world = 0, trace = first_log, returnData = [page_item]\<rparr> =
     (Inl (Error ''net::ERR_NAME_NOT_RESOLVED''),
      \<lparr>world = 0, trace = first_log @ unreachable_log, returnData = [page_item]\<rparr>)"
    by simp
  from flaky_read_1 flaky_try_block_1 no_close lb show ?thesis by (intro conjI)
qed

section \<open>Continue on fail\<close>

lemma skewed_read_0:
  "read_parameters skewed_env 0 = Inr (''runCustomScript'', ''firefox'', example_options)"
  by (simp add: read_parameters_def skewed_env_def example_env_def example_options_def)

lemma skewed_try_block_0:
  "try_block skewed_env 0 ''runCustomScript'' ''firefox'' example_options fresh =
     (Inr (), \<lparr>world = 0, trace = script_log, returnData = []\<rparr>)"
  by (simp add: body_defs flow_defs skewed_env_def example_env_def example_options_def fresh_def
      script_log_def path_credentials_def)

lemma skewed_loop_body_0:
  "loop_body skewed_env 0 fresh = (Inr (), \<lparr>world = 0, trace = script_log, returnData = []\<rparr>)"
  using skewed_read_0 skewed_try_block_0
  by (simp add: loop_body_def bind_def getNodeParameter_def try_catch_def)

lemma skewed_read_1:
  "read_parameters skewed_env 1 = Inr (''navigate'', ''firefox'', example_options)"
  by (simp add: read_parameters_def skewed_env_def example_env_def example_options_def)

lemma skewed_try_block_1:
  "try_block skewed_env 1 ''navigate'' ''firefox'' example_options
     \<lparr>world = 0, trace = script_log, returnData = []\<rparr> =
     (Inl (Error ''net::ERR_NAME_NOT_RESOLVED''),
      \<lparr>world = 0, trace = script_log @ failed_log, returnData = []\<rparr>)"
  by (simp add: body_defs flow_defs skewed_env_def example_env_def example_options_def
      failed_log_def path_credentials_def)

lemma skewed_loop_body_1:
  "loop_body skewed_env 1 \<lparr>world = 0, trace = script_log, returnData = []\<rparr> =
     (Inr (),
      \<lparr>world = 0, trace = script_log @ failed_log @ [Push [unreachable_item]],
       returnData = [unreachable_item]\<rparr>)"
  using skewed_read_1 skewed_try_block_1
  by (simp add: loop_body_def bind_def getNodeParameter_def try_catch_def catch_block_def
      property_read_def push_def skewed_env_def example_env_def unreachable_item_def)

lemma skewed_loop_body_2:
  "loop_body skewed_env 2 s = (Inl (Error ''Could not get parameter''), s)"
  by (simp add: loop_body_def bind_def getNodeParameter_def read_parameters_def skewed_env_def
      example_env_def)

lemma null_loop_body_0:
  "loop_body null_env 0 \<lparr>world = 0, trace = [], returnData = []\<rparr> =
     (Inl (type_error ''null''), \<lparr>world = 0, trace = null_log, returnData = []\<rparr>)"
  by (simp add: body_defs flow_defs null_env_def example_env_def null_log_def
      path_credentials_def)

lemma tolerant_loop_body_0:
  "loop_body tolerant_env 0 fresh =
     (Inr (), \<lparr>world = 0, trace = first_log, returnData = [page_item]\<rparr>)"
  by (simp add: body_defs flow_defs tolerant_env_def flaky_env_def example_env_def fresh_def
      first_log_def path_credentials_def)

lemma tolerant_read_1:
  "read_parameters tolerant_env 1 = Inr (''navigate'', ''firefox'', example_options)"
  by (simp add: read_parameters_def tolerant_env_def flaky_env_def example_env_def
      example_options_def)

lemma tolerant_try_block_1:
  "try_block tolerant_env 1 ''navigate'' ''firefox'' example_options
     \<lparr>world = 0, trace = first_log, returnData = [page_item]\<rparr> =
     (Inl (Error ''net::ERR_NAME_NOT_RESOLVED''),
      \<lparr>world = 0, trace = first_log @ unreachable_log, returnData = [page_item]\<rparr>)"
  by (simp add: body_defs flow_defs tolerant_env_def flaky_env_def example_env_def
      example_options_def unreachable_log_def path_credentials_def)

lemma tolerant_loop_body_1:
  "loop_body tolerant_env 1 \<lparr>world = 0, trace = first_log, returnData = [page_item]\<rparr> =
     (Inr (),
      \<lparr>world = 0, trace = first_log @ unreachable_log @ [Push [unreachable_item]],
       returnData = [page_item, unreachable_item]\<rparr>)"
  using tolerant_read_1 tolerant_try_block_1
  by (simp add: loop_body_def bind_def getNodeParameter_def try_catch_def catch_block_def
      property_read_def push_def tolerant_env_def flaky_env_def example_env_def
      unreachable_item_def)

lemma tolerant_loop_body_2:
  "loop_body tolerant_env 2
     \<lparr>world = 0, trace = first_log @ unreachable_log @ [Push [unreachable_item]],
      returnData = [page_item, unreachable_item]\<rparr> =
     (Inr (),
      \<lparr>world = 0, trace = first_log @ unreachable_log @ [Push [unreachable_item]] @ third_log,
       returnData = [page_item, unreachable_item, page_item]\<rparr>)"
  by (simp add: body_defs flow_defs tolerant_env_def flaky_env_def example_env_def
      third_log_def path_credentials_def)

lemma tolerant_before_1:
  "execute_loop tolerant_env 1 0 \<lparr>world = 0, trace = [], returnData = []\<rparr> =
     (Inr (), \<lparr>world = 0, trace = first_log, returnData = [page_item]\<rparr>)"
proof -
  have "execute_loop tolerant_env 1 0 fresh =
      execute_loop tolerant_env 1 (Suc 0)
        \<lparr>world = 0, trace = first_log, returnData = [page_item]\<rparr>"
    by (rule execute_loop_step [OF _ tolerant_loop_body_0]) simp
  then show ?thesis by (simp add: execute_loop_done fresh_def)
qed

lemma tolerant_execute:
  "execute tolerant_env 0 =
     (Inr [[page_item, unreachable_item, page_item]],
      \<lparr>world = 0, trace = first_log @ unreachable_log @ [Push [unreachable_item]] @ third_log,
       returnData = [page_item, unreachable_item, page_item]\<rparr>)"
proof -
  have n: "length (getInputData tolerant_env) = 3"
    by (simp add: tolerant_env_def flaky_env_def example_env_def)
  have "execute_loop tolerant_env 3 0 \<lparr>world = 0, trace = [], returnData = []\<rparr> =
      execute_loop tolerant_env 3 1 \<lparr>world = 0, trace = first_log, returnData = [page_item]\<rparr>"
    using tolerant_before_1 by (intro execute_loop_split) simp_all
  also have "\<dots> = execute_loop tolerant_env 3 (Suc 1)
      \<lparr>world = 0, trace = first_log @ unreachable_log @ [Push [unreachable_item]],
       returnData = [page_item, unreachable_item]\<rparr>"
    using tolerant_loop_body_1 by (intro execute_loop_step) simp_all
  also have "\<dots> = execute_loop tolerant_env 3 (Suc (Suc 1))
      \<lparr>world = 0, trace = first_log @ unreachable_log @ [Push [unreachable_item]] @ third_log,
       returnData = [page_item, unreachable_item, page_item]\<rparr>"
    using tolerant_loop_body_2 by (intro execute_loop_step) (simp_all add: numeral_2_eq_2)
  finally show ?thesis
    by (simp add: execute_def n execute_loop_done)
qed

text \<open>
  C2 as stated does not hold, with continue-on-fail on. On \<open>skewed_env\<close>, item 0 is a custom
  script that returns no items; item 1 fails in \<^verbatim>\<open>page.goto\<close>, and its error item is the
  output at position 0, not 1; item 2 fails while its \<^verbatim>\<open>browser\<close> parameter is read,
  before the \<^verbatim>\<open>try\<close>, and the run ends with that error and no error item for it. On
  \<open>null_env\<close>, the script of item 0 throws \<^verbatim>\<open>null\<close>; the catch block cannot read its
  message, no error item is pushed, and the run ends with the TypeError.
\<close>

theorem error_item_position_counterexample:
  "continueOnFail skewed_env
 \<and> length (getInputData skewed_env) = 3
 \<and> execute skewed_env 0 =
     (Inl (Error ''Could not get parameter''),
      \<lparr>world = 0, trace = script_log @ failed_log @ [Push [unreachable_item]],
       returnData = [unreachable_item]\<rparr>)
 \<and> \<not> 1 < length (returnData (snd (execute skewed_env 0)))
 \<and> continueOnFail null_env
 \<and> execute null_env 0 =
     (Inl (type_error ''null''), \<lparr>world = 0, trace = null_log, returnData = []\<rparr>)"
proof -
  have n: "length (getInputData skewed_env) = 3"
    by (simp add: skewed_env_def example_env_def)
  have c: "continueOnFail skewed_env"
    by (simp add: skewed_env_def example_env_def)
  have "execute_loop skewed_env 3 0 fresh =
      execute_loop skewed_env 3 (Suc 0) \<lparr>world = 0, trace = script_log, returnData = []\<rparr>"
    by (rule execute_loop_step [OF _ skewed_loop_body_0]) simp
  also have "\<dots> = execute_loop skewed_env 3 (Suc (Suc 0))
      \<lparr>world = 0, trace = script_log @ failed_log @ [Push [unreachable_item]],
       returnData = [unreachable_item]\<rparr>"
    using skewed_loop_body_1 by (intro execute_loop_step) simp_all
  also have "\<dots> = (Inl (Error ''Could not get parameter''),
      \<lparr>world = 0, trace = script_log @ failed_log @ [Push [unreachable_item]],
       returnData = [unreachable_item]\<rparr>)"
    using skewed_loop_body_2 by (intro execute_loop_fail) (simp_all add: numeral_2_eq_2)
  finally have run: "execute skewed_env 0 =
     (Inl (Error ''Could not get parameter''),
      \<lparr>world = 0, trace = script_log @ failed_log @ [Push [unreachable_item]],
       returnData = [unreachable_item]\<rparr>)"
    by (simp add: execute_def n fresh_def)
  have n': "length (getInputData null_env) = 2"
    by (simp add: null_env_def example_env_def)
  have c': "continueOnFail null_env"
    by (simp add: null_env_def example_env_def)
  have "execute_loop null_env 2 0 \<lparr>world = 0, trace = [], returnData = []\<rparr> =
      (Inl (type_error ''null''), \<lparr>world = 0, trace = null_log, returnData = []\<rparr>)"
    using null_loop_body_0 by (intro execute_loop_fail) simp_all
  then have run': "execute null_env 0 =
     (Inl (type_error ''null''), \<lparr>world = 0, trace = null_log, returnData = []\<rparr>)"
    by (simp add: execute_def n')
  from c n run c' run' show ?thesis by simp
qed

text \<open>
  C2, amended. With continue-on-fail on, when the \<^verbatim>\<open>try\<close> block of item \<open>i\<close> (from the
  credential lookup on) raises an error \<open>e\<close> other than a thrown \<^verbatim>\<open>null\<close> or \<^verbatim>\<open>undefined\<close>,
  so that the catch block can read its message \<open>m\<close>, the block has appended nothing to
  \<^verbatim>\<open>returnData\<close>, and the turn of the loop appends exactly one item, right after the outputs
  of the items before \<open>i\<close>: the error item, whose \<^verbatim>\<open>json\<close> holds \<open>m\<close> under \<^verbatim>\<open>error\<close> (the
  message string of an \<^verbatim>\<open>Error\<close>), the item's browser kind under \<^verbatim>\<open>browserType\<close> and the
  host's operating system under \<^verbatim>\<open>os\<close>. No error leaves the turn, and the loop goes on with
  item \<open>i + 1\<close>. In the sequence that \<^verbatim>\<open>execute\<close> returns, the error item stands right after
  the outputs of items \<open>0\<close> to \<open>i - 1\<close>.
\<close>

theorem caught_error_is_appended:
  assumes "continueOnFail env"
    and "read_parameters env i = Inr (operation, bt, bo)"
    and "try_block env i operation bt bo s = (Inl e, s1)"
    and "error_message e = Inr m"
  shows "returnData s1 = returnData s
       \<and> loop_body env i s =
           (Inr (), s1\<lparr>trace := trace s1 @ [Push [error_item m bt (platform env)]],
                       returnData := returnData s @ [error_item m bt (platform env)]\<rparr>)
       \<and> json (error_item m bt (platform env)) =
           [(''error'', m), (''browserType'', JString bt), (''os'', JString (platform env))]
       \<and> (\<forall>msg. e = Error msg \<longrightarrow> m = JString msg)
       \<and> (\<forall>n. i < n \<longrightarrow>
            execute_loop env n i s =
            execute_loop env n (Suc i)
              (s1\<lparr>trace := trace s1 @ [Push [error_item m bt (platform env)]],
                  returnData := returnData s @ [error_item m bt (platform env)]\<rparr>))
       \<and> (\<forall>w outs s_end.
            execute_loop env i 0 \<lparr>world = w, trace = [], returnData = []\<rparr> = (Inr (), s) \<and>
            i < length (getInputData env) \<and> execute env w = (Inr outs, s_end) \<longrightarrow>
            (\<exists>rest. outs = [returnData s @ [error_item m bt (platform env)] @ rest]))"
proof -
  let ?s' = "s1\<lparr>trace := trace s1 @ [Push [error_item m bt (platform env)]],
                returnData := returnData s @ [error_item m bt (platform env)]\<rparr>"
  from try_block_returnData [OF assms(3)] have rd: "returnData s1 = returnData s" by simp
  have lb: "loop_body env i s = (Inr (), ?s')"
    using assms rd
    by (simp add: loop_body_def bind_def getNodeParameter_def try_catch_def catch_block_def
        property_read_def push_def)
  have js: "json (error_item m bt (platform env)) =
           [(''error'', m), (''browserType'', JString bt), (''os'', JString (platform env))]"
    by (simp add: error_item_def)
  have msg: "\<forall>msg. e = Error msg \<longrightarrow> m = JString msg"
    using assms(4) by auto
  have step: "\<forall>n. i < n \<longrightarrow> execute_loop env n i s = execute_loop env n (Suc i) ?s'"
    using lb by (simp add: execute_loop_step)
  have returned: "\<forall>w outs s_end.
            execute_loop env i 0 \<lparr>world = w, trace = [], returnData = []\<rparr> = (Inr (), s) \<and>
            i < length (getInputData env) \<and> execute env w = (Inr outs, s_end) \<longrightarrow>
            (\<exists>rest. outs = [returnData s @ [error_item m bt (platform env)] @ rest])"
  proof (intro allI impI, elim conjE)
    fix w outs s_end
    assume "execute_loop env i 0 \<lparr>world = w, trace = [], returnData = []\<rparr> = (Inr (), s)"
      and "i < length (getInputData env)" and "execute env w = (Inr outs, s_end)"
    from execute_output_after [OF this(1,2) lb this(3)]
    show "\<exists>rest. outs = [returnData s @ [error_item m bt (platform env)] @ rest]" by simp
  qed
  from rd lb js msg step returned show ?thesis by (intro conjI)
qed

theorem caught_error_is_appended_witness:
  "continueOnFail tolerant_env
 \<and> read_parameters tolerant_env 1 = Inr (''navigate'', ''firefox'', example_options)
 \<and> try_block tolerant_env 1 ''navigate'' ''firefox'' example_options
     \<lparr>world = 0, trace = first_log, returnData = [page_item]\<rparr> =
     (Inl (Error ''net::ERR_NAME_NOT_RESOLVED''),
      \<lparr>world = 0, trace = first_log @ unreachable_log, returnData = [page_item]\<rparr>)
 \<and> error_message (Error ''net::ERR_NAME_NOT_RESOLVED'') = Inr (JString ''net::ERR_NAME_NOT_RESOLVED'')
 \<and> loop_body tolerant_env 1 \<lparr>world = 0, trace = first_log, returnData = [page_item]\<rparr> =
     (Inr (),
      \<lparr>world = 0, trace = first_log @ unreachable_log @ [Push [unreachable_item]],
       returnData = [page_item, unreachable_item]\<rparr>)
 \<and> json unreachable_item =
     [(''error'', JString ''net::ERR_NAME_NOT_RESOLVED''), (''browserType'', JString ''firefox''),
      (''os'', JString ''linux'')]
 \<and> execute tolerant_env 0 =
     (Inr [[page_item, unreachable_item, page_item]],
      \<lparr>world = 0, trace = first_log @ unreachable_log @ [Push [unreachable_item]] @ third_log,
       returnData = [page_item, unreachable_item, page_item]\<rparr>)
 \<and> (\<exists>rest. [[page_item, unreachable_item, page_item]] =
       [[page_item] @ [unreachable_item] @ rest])"
proof -
  have c: "continueOnFail tolerant_env"
    by (simp add: tolerant_env_def)
  have p: "platform tolerant_env = ''linux''"
    by (simp add: tolerant_env_def flaky_env_def example_env_def)
  have m: "error_message (Error ''net::ERR_NAME_NOT_RESOLVED'') =
      Inr (JString ''net::ERR_NAME_NOT_RESOLVED'')"
    by simp
  have lt: "(1::nat) < length (getInputData tolerant_env)"
    by (simp add: tolerant_env_def flaky_env_def example_env_def)
  note inst = caught_error_is_appended [OF c tolerant_read_1 tolerant_try_block_1 m,
      unfolded p, folded unreachable_item_def]
  from inst have lb: "loop_body tolerant_env 1
      \<lparr>world = 0, trace = first_log, returnData = [page_item]\<rparr> =
     (Inr (),
      \<lparr>world = 0, trace = first_log @ unreachable_log @ [Push [unreachable_item]],
       returnData = [page_item, unreachable_item]\<rparr>)"
    by simp
  from inst have js: "json unreachable_item =
     [(''error'', JString ''net::ERR_NAME_NOT_RESOLVED''), (''browserType'', JString ''firefox''),
      (''os'', JString ''linux'')]"
    by simp
  from inst have "\<forall>w outs s_end.
      execute_loop tolerant_env 1 0 \<lparr>world = w, trace = [], returnData = []\<rparr> =
        (Inr (), \<lparr>world = 0, trace = first_log, returnData = [page_item]\<rparr>) \<and>
      1 < length (getInputData tolerant_env) \<and> execute tolerant_env w = (Inr outs, s_end) \<longrightarrow>
      (\<exists>rest. outs =
         [returnData \<lparr>world = 0::nat, trace = first_log, returnData = [page_item]\<rparr> @
          [unreachable_item] @ rest])"
    by (elim conjE)
  with tolerant_before_1 lt tolerant_execute
  have r: "\<exists>rest. [[page_item, unreachable_item, page_item]] =
       [[page_item] @ [unreachable_item] @ rest]"
    by fastforce
  from c tolerant_read_1 tolerant_try_block_1 m lb js tolerant_execute r
  show ?thesis by (intro conjI)
qed

section \<open>Without continue on fail\<close>

text \<open>
  C6. With continue-on-fail off, when the items before \<open>i\<close> have been processed and item \<open>i\<close>
  fails with \<open>e\<close> (one of its three parameters cannot be read, or its \<^verbatim>\<open>try\<close> block raises
  \<open>e\<close>), the turn of the loop rethrows \<open>e\<close> and the loop, whatever the number of items,
  ends at once with \<open>e\<close> in the state the failure left: item \<open>i\<close> has appended nothing to
  \<^verbatim>\<open>returnData\<close>, no later item is processed, and \<^verbatim>\<open>execute\<close> throws \<open>e\<close>.
\<close>

theorem failure_stops_the_run:
  assumes "\<not> continueOnFail env"
    and "i < n"
    and "execute_loop env i 0 s0 = (Inr (), s)"
    and "(read_parameters env i = Inl e \<and> s' = s) \<or>
         (\<exists>operation bt bo. read_parameters env i = Inr (operation, bt, bo) \<and>
            try_block env i operation bt bo s = (Inl e, s'))"
  shows "loop_body env i s = (Inl e, s')
       \<and> execute_loop env n 0 s0 = (Inl e, s')
       \<and> returnData s' = returnData s
       \<and> (n = length (getInputData env) \<and> s0 = \<lparr>world = w, trace = [], returnData = []\<rparr> \<longrightarrow>
            execute env w = (Inl e, s'))"
proof -
  from assms(4) have both: "loop_body env i s = (Inl e, s') \<and> returnData s' = returnData s"
  proof (elim disjE exE conjE)
    assume "read_parameters env i = Inl e" "s' = s"
    then show ?thesis
      by (simp add: loop_body_def bind_def getNodeParameter_def)
  next
    fix operation bt bo
    assume a: "read_parameters env i = Inr (operation, bt, bo)"
      "try_block env i operation bt bo s = (Inl e, s')"
    with assms(1) have "loop_body env i s = (Inl e, s')"
      by (simp add: loop_body_def bind_def getNodeParameter_def try_catch_def catch_block_def
          throw_def)
    moreover from try_block_returnData [OF a(2)] have "returnData s' = returnData s" by simp
    ultimately show ?thesis by simp
  qed
  then have lb: "loop_body env i s = (Inl e, s')" and rd: "returnData s' = returnData s"
    by simp_all
  from assms(2,3) have "execute_loop env n 0 s0 = execute_loop env n i s"
    by (intro execute_loop_split) simp_all
  with lb assms(2) have el: "execute_loop env n 0 s0 = (Inl e, s')"
    by (simp add: execute_loop_fail)
  show ?thesis using lb el rd by (auto simp: execute_def)
qed

theorem failure_stops_the_run_witness:
  "\<not> continueOnFail flaky_env
 \<and> (1::nat) < length (getInputData flaky_env)
 \<and> execute_loop flaky_env 1 0 fresh =
     (Inr (), \<lparr>world = 0, trace = first_log, returnData = [page_item]\<rparr>)
 \<and> read_parameters flaky_env 1 = Inr (''navigate'', ''firefox'', example_options)
 \<and> try_block flaky_env 1 ''navigate'' ''firefox'' example_options
     \<lparr>world = 0, trace = first_log, returnData = [page_item]\<rparr> =
     (Inl (Error ''net::ERR_NAME_NOT_RESOLVED''),
      \<lparr>world = 0, trace = first_log @ unreachable_log, returnData = [page_item]\<rparr>)
 \<and> execute flaky_env 0 =
     (Inl (Error ''net::ERR_NAME_NOT_RESOLVED''),
      \<lparr>world = 0, trace = first_log @ unreachable_log, returnData = [page_item]\<rparr>)"
proof -
  have c: "\<not> continueOnFail flaky_env"
    by (simp add: flaky_env_def example_env_def)
  have n: "length (getInputData flaky_env) = 3"
    by (simp add: flaky_env_def example_env_def)
  then have lt: "(1::nat) < length (getInputData flaky_env)" by simp
  have "execute_loop flaky_env 1 0 fresh =
      execute_loop flaky_env 1 (Suc 0) \<lparr>world = 0, trace = first_log, returnData = [page_item]\<rparr>"
    by (rule execute_loop_step [OF _ flaky_loop_body_0]) simp
  then have before: "execute_loop flaky_env 1 0 fresh =
     (Inr (), \<lparr>world = 0, trace = first_log, returnData = [page_item]\<rparr>)"
    by (simp add: execute_loop_done)
  have fails: "(read_parameters flaky_env 1 = Inl (Error ''net::ERR_NAME_NOT_RESOLVED'') \<and>
       \<lparr>world = 0, trace = first_log @ unreachable_log, returnData = [page_item]\<rparr> =
       \<lparr>world = 0::nat, trace = first_log, returnData = [page_item]\<rparr>) \<or>
     (\<exists>operation bt bo. read_parameters flaky_env 1 = Inr (operation, bt, bo) \<and>
        try_block flaky_env 1 operation bt bo
          \<lparr>world = 0, trace = first_log, returnData = [page_item]\<rparr> =
          (Inl (Error ''net::ERR_NAME_NOT_RESOLVED''),
           \<lparr>world = 0, trace = first_log @ unreachable_log, returnData = [page_item]\<rparr>))"
    using flaky_read_1 flaky_try_block_1 by blast
  from failure_stops_the_run [OF c lt before fails, of 0]
  have "execute flaky_env 0 =
     (Inl (Error ''net::ERR_NAME_NOT_RESOLVED''),
      \<lparr>world = 0, trace = first_log @ unreachable_log, returnData = [page_item]\<rparr>)"
    by (simp add: fresh_def)
  with c lt before flaky_read_1 flaky_try_block_1 show ?thesis by (intro conjI)
qed

end
